theory Spec2Isabelle
  imports Complex_Main "HOL-Library.Multiset" "HOL-Library.Sublist"
begin

section \<open>Common conventions\<close>

text \<open>
  The Python sources are embedded as pure functions. Mutable attributes of an object
  become fields of a record that is passed in and returned; an exception becomes the
  left injection of a sum; the wall clock, the hash functions and every pseudo-random
  draw are arguments. Python floats are idealised as real numbers, except where a result
  turns on the last bit: the arithmetic of \<^verbatim>\<open>_make_recommendation\<close> is rounded to
  double precision as the interpreter rounds it.
\<close>

datatype py_error =
    KeyError string
  | ValueError string
  | IndexError
  | AttributeError
  | IntegrityError
  | ReplicationError string

text \<open>\<^verbatim>\<open>round(x, n)\<close> on the idealised reals: to the nearest multiple of \<open>10^-n\<close>, ties to even.\<close>

definition py_round :: "real \<Rightarrow> nat \<Rightarrow> real" where
  "py_round x nd =
     (let s = x * 10 ^ nd;
          f = \<lfloor>s\<rfloor>;
          d = s - of_int f;
          r = (if d < 1 / 2 then f
               else if 1 / 2 < d then f + 1
               else if even f then f else f + 1)
      in of_int r / 10 ^ nd)"

text \<open>
  IEEE 754 double precision (binary64), round to nearest, ties to even. A float literal
  and the result of one float operation are the double nearest to the exact value.
  \<open>float_exponent n a 0\<close> is the binary exponent of \<open>a > 0\<close>, found in at most \<open>n\<close> halvings or
  doublings; exponents below \<open>-1022\<close> are those of the subnormal doubles, which share the
  spacing \<open>2^-1074\<close>. Magnitudes from \<open>2^1024\<close> on, which overflow, are not modelled.
\<close>

fun float_exponent :: "nat \<Rightarrow> real \<Rightarrow> int \<Rightarrow> int" where
  "float_exponent 0 a e = e"
| "float_exponent (Suc n) a e =
     (if 2 \<le> a then float_exponent n (a / 2) (e + 1)
      else if a < 1 then float_exponent n (a * 2) (e - 1)
      else e)"

definition round_half_even :: "real \<Rightarrow> int" where
  "round_half_even s =
     (let f = \<lfloor>s\<rfloor>;
          d = s - of_int f
      in if d < 1 / 2 then f
         else if 1 / 2 < d then f + 1
         else if even f then f else f + 1)"

definition binary64 :: "real \<Rightarrow> real" where
  "binary64 x =
     (if x = 0 then 0
      else (let a = \<bar>x\<bar>;
                e = max (float_exponent 1100 a 0) (- 1022);
                u = (if 52 \<le> e then 2 ^ nat (e - 52) else 1 / 2 ^ nat (52 - e))
            in sgn x * (of_int (round_half_even (a / u)) * u)))"

text \<open>\<^verbatim>\<open>xs[:n]\<close>: a negative bound counts from the end.\<close>

definition py_slice_to :: "'a list \<Rightarrow> int \<Rightarrow> 'a list" where
  "py_slice_to xs n =
     (if 0 \<le> n then take (nat n) xs else take (nat (int (length xs) + n)) xs)"

section \<open>Package surface (\<^verbatim>\<open>__init__.py\<close>)\<close>

text \<open>The names bound by the five \<^verbatim>\<open>from .module import Name\<close> statements.\<close>

definition imported_names :: "string list" where
  "imported_names =
     [''OuroborosZero'', ''QuantumReplicator'', ''StealthModule'',
      ''AIDecisionEngine'', ''DatabaseHandler'']"

text \<open>The three dunder markers assigned at the top of the module.\<close>

definition marker_names :: "string list" where
  "marker_names = [''__version__'', ''__author__'', ''__license__'']"

text \<open>The submodules that the relative imports bind as attributes of the package.\<close>

definition submodule_names :: "string list" where
  "submodule_names =
     [''ouroboros_zero'', ''quantum_replication'', ''stealth_operations'',
      ''ai_decision_engine'', ''database_handler'']"

definition package_namespace :: "string list" where
  "package_namespace = marker_names @ submodule_names @ imported_names @ [''__all__'']"

text \<open>The list assigned to \<^verbatim>\<open>__all__\<close>.\<close>

definition all_names :: "string list" where
  "all_names =
     [''AutonomousReplicator'', ''QuantumReplicator'', ''StealthModule'',
      ''AIDecisionEngine'', ''DatabaseHandler'']"

text \<open>
  \<^verbatim>\<open>from package import *\<close> looks each exported name up in the module namespace; a name
  that is not bound there raises \<^verbatim>\<open>AttributeError\<close>.
\<close>

fun star_import :: "string list \<Rightarrow> string list \<Rightarrow> py_error + string list" where
  "star_import namespace [] = Inr []"
| "star_import namespace (n # ns) =
     (if n \<in> set namespace
      then (case star_import namespace ns of
              Inl e \<Rightarrow> Inl e
            | Inr rest \<Rightarrow> Inr (n # rest))
      else Inl AttributeError)"

section \<open>Target intelligence snapshot\<close>

record os_fingerprint =
  os :: string
  os_version :: string
  kernel :: "string option"
  build :: "string option"

record port_entry =
  port :: nat
  port_service :: string
  port_state :: string

record service_entry =
  svc_name :: string
  svc_version :: string
  svc_port :: nat

record vulnerability =
  cve :: string
  severity :: string
  description :: string
  exploitable :: bool

record security_posture =
  firewall_detected :: bool
  ids_ips_active :: bool
  patch_level :: string
  hardening_score :: real
  overall_risk :: string

record network_topology =
  subnet :: string
  gateway :: string
  neighbors :: int
  network_type :: string

record target_info =
  ip_address :: string
  timestamp :: string
  os_fingerprint :: os_fingerprint
  open_ports :: "port_entry list"
  services :: "service_entry list"
  vulnerabilities :: "vulnerability list"
  security_posture :: security_posture
  network_topology :: network_topology

section \<open>Heuristic decision engine (\<^verbatim>\<open>ai_decision_engine.py\<close>)\<close>

record strategy_params =
  target_selection_weight_security :: real
  target_selection_weight_spread :: real
  replication_rate_limit :: int
  risk_threshold :: real
  learning_rate :: real
  exploration_rate :: real

record learning_entry =
  le_target_ip :: string
  le_outcome :: string
  le_timestamp :: string

record evaluation =
  ev_target_ip :: string
  risk_score :: real
  security_risk :: real
  detection_risk :: real
  success_probability :: real
  strategic_value :: real
  recommendation :: string
  evaluated_at :: string

text \<open>
  The dictionary \<^verbatim>\<open>strategy_parameters\<close> is empty after construction and holds all six
  keys after \<^verbatim>\<open>initialize\<close>; \<open>None\<close> is the empty dictionary.
\<close>

record ai_decision_engine =
  learning_data :: "learning_entry list"
  decision_history :: "evaluation list"
  strategy_parameters :: "strategy_params option"
  risk_tolerance :: real

definition AIDecisionEngine_init :: ai_decision_engine where
  "AIDecisionEngine_init =
     \<lparr>learning_data = [], decision_history = [], strategy_parameters = None,
      risk_tolerance = binary64 0.6\<rparr>"

text \<open>
  \<^verbatim>\<open>initialize\<close>: the first argument is what \<^verbatim>\<open>db_handler.load_learning_data()\<close> gave
  (an exception of the store propagates before the parameters are set).
\<close>

definition initialize_engine ::
  "py_error + learning_entry list \<Rightarrow> ai_decision_engine \<Rightarrow> py_error + ai_decision_engine" where
  "initialize_engine loaded eng =
     (case loaded of
        Inl e \<Rightarrow> Inl e
      | Inr rows \<Rightarrow>
          Inr (eng\<lparr>learning_data := rows,
                   strategy_parameters := Some
                     \<lparr>target_selection_weight_security = 0.7,
                      target_selection_weight_spread = 0.3,
                      replication_rate_limit = 5,
                      risk_threshold = 0.65,
                      learning_rate = 0.01,
                      exploration_rate = 0.2\<rparr>\<rparr>))"

record features =
  f_os_type :: string
  num_open_ports :: nat
  num_vulnerabilities :: nat
  has_firewall :: bool
  has_ids :: bool
  f_patch_level :: string
  f_hardening_score :: real

definition extract_features :: "target_info \<Rightarrow> features" where
  "extract_features ti =
     \<lparr>f_os_type = os (os_fingerprint ti),
      num_open_ports = length (open_ports ti),
      num_vulnerabilities = length (vulnerabilities ti),
      has_firewall = firewall_detected (security_posture ti),
      has_ids = ids_ips_active (security_posture ti),
      f_patch_level = patch_level (security_posture ti),
      f_hardening_score = hardening_score (security_posture ti)\<rparr>"

definition assess_security_risk :: "target_info \<Rightarrow> real" where
  "assess_security_risk ti =
     (let security = security_posture ti;
          risk0 = 0;
          risk1 = (if firewall_detected security then risk0 + 0.3 else risk0);
          risk2 = (if ids_ips_active security then risk1 + 0.3 else risk1);
          risk3 = risk2 + hardening_score security * 0.4
      in min risk3 1)"

definition detection_patch_factor :: "string \<Rightarrow> real" where
  "detection_patch_factor lvl =
     (if lvl = ''current'' then 0.7
      else if lvl = ''outdated'' then 0.4
      else if lvl = ''critical'' then 0.2
      else 0.5)"

definition assess_detection_risk :: "target_info \<Rightarrow> real" where
  "assess_detection_risk ti =
     (let security = security_posture ti;
          vuln_count = length (vulnerabilities ti);
          vuln_factor = max 0 (1 - real vuln_count * 0.2);
          monitoring_factor = (if ids_ips_active security then 0.5 else 0.1);
          patch_factor = detection_patch_factor (patch_level security)
      in vuln_factor * 0.3 + monitoring_factor * 0.4 + patch_factor * 0.3)"

definition patch_penalty :: "string \<Rightarrow> real" where
  "patch_penalty lvl =
     (if lvl = ''current'' then - 0.2
      else if lvl = ''outdated'' then - 0.05
      else if lvl = ''critical'' then 0.1
      else 0)"

definition predict_success :: "features \<Rightarrow> real" where
  "predict_success fs =
     (let score0 = 0.5;
          score1 = score0 + real (num_vulnerabilities fs) * 0.1;
          score2 = (if \<not> has_firewall fs then score1 + 0.15 else score1);
          score3 = (if \<not> has_ids fs then score2 + 0.15 else score2);
          score4 = score3 + patch_penalty (f_patch_level fs);
          score5 = score4 - f_hardening_score fs * 0.2
      in max 0 (min score5 1))"

text \<open>The loop over the services: database servers add 0.15, web servers 0.1.\<close>

fun service_value :: "service_entry list \<Rightarrow> real \<Rightarrow> real" where
  "service_value [] v = v"
| "service_value (s # ss) v =
     service_value ss
       (if svc_name s \<in> set [''MySQL'', ''PostgreSQL'', ''MongoDB''] then v + 0.15
        else if svc_name s \<in> set [''Apache'', ''nginx''] then v + 0.1
        else v)"

definition assess_strategic_value :: "target_info \<Rightarrow> real" where
  "assess_strategic_value ti =
     (let value0 = 0.3;
          value1 = value0 + real (length (open_ports ti)) * 0.05;
          nb = neighbors (network_topology ti);
          value2 = value1 + min (of_int nb * 0.02) 0.3;
          value3 = service_value (services ti) value2
      in min value3 1)"

text \<open>
  \<^verbatim>\<open>expected_value = value * success_prob - risk\<close> in double arithmetic: the product is
  rounded, then the difference.
\<close>

definition expected_value :: "real \<Rightarrow> real \<Rightarrow> real \<Rightarrow> real" where
  "expected_value risk val success_prob = binary64 (binary64 (val * success_prob) - risk)"

text \<open>The literals \<^verbatim>\<open>0.3\<close> and \<^verbatim>\<open>0.8\<close> are doubles; \<^verbatim>\<open>0\<close> is exact.\<close>

definition make_recommendation :: "ai_decision_engine \<Rightarrow> real \<Rightarrow> real \<Rightarrow> real \<Rightarrow> string" where
  "make_recommendation eng risk val success_prob =
     (let ev = expected_value risk val success_prob
      in if binary64 0.3 < ev \<and> risk < risk_tolerance eng then ''REPLICATE''
         else if 0 < ev \<and> risk < binary64 0.8 then ''MONITOR''
         else ''AVOID'')"

text \<open>The overall risk that \<^verbatim>\<open>evaluate_target\<close> computes, before rounding.\<close>

definition combined_risk :: "target_info \<Rightarrow> real" where
  "combined_risk ti =
     assess_security_risk ti * 0.4 + assess_detection_risk ti * 0.4
       + (1 - predict_success (extract_features ti)) * 0.2"

text \<open>
  \<^verbatim>\<open>evaluate_target\<close>: the second component is the engine with the evaluation appended to
  its decision history; \<open>now\<close> is \<^verbatim>\<open>datetime.now().isoformat()\<close>.
\<close>

definition evaluate_target ::
  "ai_decision_engine \<Rightarrow> target_info \<Rightarrow> string \<Rightarrow> evaluation \<times> ai_decision_engine" where
  "evaluate_target eng ti now =
     (let fs = extract_features ti;
          sec = assess_security_risk ti;
          det = assess_detection_risk ti;
          succ = predict_success fs;
          overall = sec * 0.4 + det * 0.4 + (1 - succ) * 0.2;
          strategic = assess_strategic_value ti;
          rec = make_recommendation eng overall strategic succ;
          ev = \<lparr>ev_target_ip = ip_address ti,
                risk_score = py_round overall 3,
                security_risk = py_round sec 3,
                detection_risk = py_round det 3,
                success_probability = py_round succ 3,
                strategic_value = py_round strategic 3,
                recommendation = rec,
                evaluated_at = now\<rparr>
      in (ev, eng\<lparr>decision_history := decision_history eng @ [ev]\<rparr>))"

text \<open>
  The standard library's \<^verbatim>\<open>random.sample(population, k)\<close>, presented by its pool
  algorithm: draw \<open>i\<close> picks one of the \<open>n - i\<close> elements still in the pool, and the last
  of them takes the place of the picked one. \<open>draws i\<close> is the raw outcome of the \<open>i\<close>-th
  draw.
\<close>

fun sample_pool :: "(nat \<Rightarrow> nat) \<Rightarrow> 'a list \<Rightarrow> nat \<Rightarrow> nat \<Rightarrow> 'a list" where
  "sample_pool draws pool i 0 = []"
| "sample_pool draws pool i (Suc k) =
     (let m = length pool - i;
          j = draws i mod m
      in pool ! j # sample_pool draws (pool[j := pool ! (m - 1)]) (Suc i) k)"

definition random_sample :: "(nat \<Rightarrow> nat) \<Rightarrow> 'a list \<Rightarrow> int \<Rightarrow> py_error + 'a list" where
  "random_sample draws population k =
     (if 0 \<le> k \<and> k \<le> int (length population)
      then Inr (sample_pool draws population 0 (nat k))
      else Inl (ValueError ''Sample larger than population or is negative''))"

text \<open>
  The draws of one call of \<^verbatim>\<open>select_targets\<close>: \<open>explore_draw\<close> is \<^verbatim>\<open>random.random()\<close>,
  \<^verbatim>\<open>random.randint(1, 3)\<close> is \<open>1 + count_draw mod 3\<close>, and \<open>sample_draws\<close> feed
  \<^verbatim>\<open>random.sample\<close>.
\<close>

record select_draws =
  explore_draw :: real
  count_draw :: nat
  sample_draws :: "nat \<Rightarrow> nat"

definition select_targets ::
  "ai_decision_engine \<Rightarrow> string list \<Rightarrow> select_draws \<Rightarrow> py_error + string list" where
  "select_targets eng available_targets dr =
     (case strategy_parameters eng of
        None \<Rightarrow> Inl (KeyError ''replication_rate_limit'')
      | Some sp \<Rightarrow>
          (let max_targets = replication_rate_limit sp
           in if explore_draw dr < exploration_rate sp
              then (let num_select =
                          min (1 + int (count_draw dr mod 3)) (int (length available_targets))
                    in random_sample (sample_draws dr) available_targets num_select)
              else (let num_select = min max_targets (int (length available_targets))
                    in Inr (py_slice_to available_targets num_select))))"

section \<open>Persistence layer (\<^verbatim>\<open>database_handler.py\<close>)\<close>

text \<open>
  A row of the table \<^verbatim>\<open>clones\<close>, without its primary key \<^verbatim>\<open>clone_id\<close>: the table is a
  map from the key to the row, so that a second insertion under the same key is the
  store's integrity error.
\<close>

record clone_row =
  cr_parent_id :: "string option"
  cr_target_ip :: "string option"
  generation :: int
  created_at :: string
  last_contact :: string
  status :: string
  quantum_signature :: "string option"

record database =
  clones :: "string \<rightharpoonup> clone_row"
  target_evaluations :: "(string \<times> evaluation) list"
  learning_rows :: "learning_entry list"

text \<open>\<open>connection = None\<close> until \<^verbatim>\<open>connect\<close> has succeeded.\<close>

record db_handler =
  db_path :: string
  connection :: "database option"

definition DatabaseHandler_init :: "string \<Rightarrow> db_handler" where
  "DatabaseHandler_init path = \<lparr>db_path = path, connection = None\<rparr>"

definition empty_database :: database where
  "empty_database = \<lparr>clones = Map.empty, target_evaluations = [], learning_rows = []\<rparr>"

text \<open>
  \<^verbatim>\<open>connect\<close>: \<open>opened\<close> is what opening the store at \<open>db_path\<close> gives, its rows or the
  driver's exception, which is raised again. The schema script creates only what is absent.
\<close>

definition connect :: "py_error + database \<Rightarrow> db_handler \<Rightarrow> py_error + db_handler" where
  "connect opened h =
     (case opened of
        Inl e \<Rightarrow> Inl e
      | Inr db \<Rightarrow> Inr (h\<lparr>connection := Some db\<rparr>))"

text \<open>Python's truth value of an optional string: \<^verbatim>\<open>None\<close> and \<^verbatim>\<open>''\<close> are false.\<close>

fun py_truthy :: "string option \<Rightarrow> bool" where
  "py_truthy None = False"
| "py_truthy (Some s) = (s \<noteq> [])"

text \<open>A statement executed on \<^verbatim>\<open>self.connection = None\<close> raises \<^verbatim>\<open>AttributeError\<close>.\<close>

definition get_clone_generation :: "db_handler \<Rightarrow> string option \<Rightarrow> py_error + int" where
  "get_clone_generation h clone_id =
     (case clone_id of
        None \<Rightarrow> Inr 0
      | Some cid \<Rightarrow>
          if cid = [] then Inr 0
          else (case connection h of
                  None \<Rightarrow> Inl AttributeError
                | Some db \<Rightarrow>
                    (case clones db cid of
                       None \<Rightarrow> Inr 0
                     | Some row \<Rightarrow> Inr (generation row))))"

definition register_clone ::
  "db_handler \<Rightarrow> string \<Rightarrow> string option \<Rightarrow> string option \<Rightarrow> string \<Rightarrow> bool \<times> db_handler" where
  "register_clone h clone_id parent_id target_ip now =
     (case (if py_truthy parent_id then get_clone_generation h parent_id else Inr 0) of
        Inl e \<Rightarrow> (False, h)
      | Inr g \<Rightarrow>
          (let gen = g + 1
           in case connection h of
                None \<Rightarrow> (False, h)
              | Some db \<Rightarrow>
                  (case clones db clone_id of
                     Some existing \<Rightarrow> (False, h)
                   | None \<Rightarrow>
                       (True,
                        h\<lparr>connection := Some
                            (db\<lparr>clones := (clones db)(clone_id \<mapsto>
                                  \<lparr>cr_parent_id = parent_id, cr_target_ip = target_ip,
                                   generation = gen, created_at = now, last_contact = now,
                                   status = ''active'', quantum_signature = None\<rparr>)\<rparr>)\<rparr>))))"

text \<open>\<^verbatim>\<open>UPDATE ... WHERE clone_id = ?\<close> changes the row of that key, if there is one.\<close>

definition update_clone_status ::
  "db_handler \<Rightarrow> string \<Rightarrow> string \<Rightarrow> string \<Rightarrow> py_error + db_handler" where
  "update_clone_status h clone_id new_status now =
     (case connection h of
        None \<Rightarrow> Inl AttributeError
      | Some db \<Rightarrow>
          (case clones db clone_id of
             None \<Rightarrow> Inr h
           | Some row \<Rightarrow>
               Inr (h\<lparr>connection := Some
                     (db\<lparr>clones := (clones db)(clone_id \<mapsto>
                           row\<lparr>status := new_status, last_contact := now\<rparr>)\<rparr>)\<rparr>)))"

definition db_terminate_clone :: "db_handler \<Rightarrow> string \<Rightarrow> string \<Rightarrow> py_error + db_handler" where
  "db_terminate_clone h clone_id now = update_clone_status h clone_id ''terminated'' now"

definition store_target_evaluation ::
  "db_handler \<Rightarrow> string \<Rightarrow> evaluation \<Rightarrow> py_error + db_handler" where
  "store_target_evaluation h target_ip ev =
     (case connection h of
        None \<Rightarrow> Inl AttributeError
      | Some db \<Rightarrow>
          Inr (h\<lparr>connection := Some
                (db\<lparr>target_evaluations := target_evaluations db @ [(target_ip, ev)]\<rparr>)\<rparr>))"

section \<open>Replication-state manager (\<^verbatim>\<open>quantum_replication.py\<close>)\<close>

text \<open>The digests of \<^verbatim>\<open>hashlib\<close>, as hexadecimal strings.\<close>

record hashlib =
  sha256_hexdigest :: "string \<Rightarrow> string"
  sha512_hexdigest :: "string \<Rightarrow> string"
  md5_hexdigest :: "string \<Rightarrow> string"

record quantum_state_rec =
  coherence :: real
  entanglement_strength :: real
  superposition_active :: bool
  measurement_timestamp :: string

record entanglement_pair =
  parent :: string
  key :: string
  established_at :: "string option"

text \<open>The handler \<^verbatim>\<open>db_handler\<close> is shared with the other components and is passed beside.\<close>

record quantum_replicator =
  quantum_state :: "string \<rightharpoonup> quantum_state_rec"
  entanglement_pairs :: "string \<rightharpoonup> entanglement_pair"

definition QuantumReplicator_init :: quantum_replicator where
  "QuantumReplicator_init = \<lparr>quantum_state = Map.empty, entanglement_pairs = Map.empty\<rparr>"

text \<open>\<^verbatim>\<open>str.upper()\<close> on ASCII.\<close>

definition upper_char :: "char \<Rightarrow> char" where
  "upper_char c =
     (let n = (of_char c :: nat)
      in if 97 \<le> n \<and> n \<le> 122 then char_of (n - 32) else c)"

definition generate_quantum_id :: "hashlib \<Rightarrow> string \<Rightarrow> string \<Rightarrow> string \<Rightarrow> string" where
  "generate_quantum_id H target_ip parent_id now =
     (let quantum_seed = parent_id @ ''-'' @ target_ip @ ''-'' @ now;
          quantum_hash = take 16 (sha256_hexdigest H quantum_seed)
      in ''QC-'' @ map upper_char quantum_hash)"

definition calculate_generation :: "db_handler \<Rightarrow> string \<Rightarrow> py_error + int" where
  "calculate_generation h parent_id =
     (case get_clone_generation h (Some parent_id) of
        Inl e \<Rightarrow> Inl e
      | Inr parent_gen \<Rightarrow> Inr (parent_gen + 1))"

definition generate_quantum_signature :: "hashlib \<Rightarrow> string \<Rightarrow> string \<Rightarrow> string" where
  "generate_quantum_signature H clone_id now = sha512_hexdigest H (clone_id @ ''-'' @ now)"

record clone_config =
  cfg_clone_id :: string
  cfg_parent_id :: string
  cfg_generation :: int
  autonomous_mode :: bool
  cfg_stealth_level :: string
  replication_enabled :: bool
  self_destruct_conditions :: "(string \<times> bool) list"

definition generate_clone_config :: "db_handler \<Rightarrow> string \<Rightarrow> string \<Rightarrow> py_error + clone_config" where
  "generate_clone_config h clone_id parent_id =
     (case calculate_generation h parent_id of
        Inl e \<Rightarrow> Inl e
      | Inr g \<Rightarrow>
          Inr \<lparr>cfg_clone_id = clone_id, cfg_parent_id = parent_id, cfg_generation = g,
               autonomous_mode = True, cfg_stealth_level = ''maximum'',
               replication_enabled = True,
               self_destruct_conditions =
                 [(''detected'', True), (''isolated'', True), (''parent_terminated'', False)]\<rparr>)"

record replication_package =
  pkg_clone_id :: string
  pkg_parent_id :: string
  pkg_version :: string
  pkg_source_files :: "(string \<times> string) list"
  pkg_config :: clone_config
  pkg_quantum_signature :: string
  pkg_created_at :: string

text \<open>
  \<open>files\<close> is what \<^verbatim>\<open>_gather_source_files\<close> read: the encoded contents of the listed files
  that exist. \<open>t_sig\<close> and \<open>t_pkg\<close> are the two readings of the clock.
\<close>

definition create_replication_package ::
  "hashlib \<Rightarrow> db_handler \<Rightarrow> (string \<times> string) list \<Rightarrow> string \<Rightarrow> string \<Rightarrow> string \<Rightarrow> string
     \<Rightarrow> py_error + replication_package" where
  "create_replication_package H h files clone_id parent_id t_sig t_pkg =
     (case generate_clone_config h clone_id parent_id of
        Inl e \<Rightarrow> Inl e
      | Inr config \<Rightarrow>
          Inr \<lparr>pkg_clone_id = clone_id, pkg_parent_id = parent_id, pkg_version = ''7.0'',
               pkg_source_files = files, pkg_config = config,
               pkg_quantum_signature = generate_quantum_signature H clone_id t_sig,
               pkg_created_at = t_pkg\<rparr>)"

text \<open>\<open>rand_hex\<close> is \<^verbatim>\<open>os.urandom(32).hex()\<close>.\<close>

definition establish_quantum_entanglement :: "hashlib \<Rightarrow> string \<Rightarrow> string \<Rightarrow> string \<Rightarrow> string" where
  "establish_quantum_entanglement H clone_id parent_id rand_hex =
     sha256_hexdigest H (parent_id @ ''-'' @ clone_id @ ''-'' @ rand_hex)"

definition capture_quantum_state ::
  "quantum_replicator \<Rightarrow> string \<Rightarrow> string \<Rightarrow> quantum_state_rec \<times> quantum_replicator" where
  "capture_quantum_state rep clone_id now =
     (let st = \<lparr>coherence = 0.99, entanglement_strength = 0.95,
                superposition_active = True, measurement_timestamp = now\<rparr>
      in (st, rep\<lparr>quantum_state := (quantum_state rep)(clone_id \<mapsto> st)\<rparr>))"

text \<open>The dictionary that \<^verbatim>\<open>check_clone_status\<close> returns; an absent key is \<open>None\<close>.\<close>

record clone_status =
  healthy :: bool
  reason :: "string option"
  cs_clone_id :: "string option"
  quantum_coherence :: "real option"
  cs_last_contact :: "string option"

definition check_clone_status :: "quantum_replicator \<Rightarrow> string \<Rightarrow> string \<Rightarrow> clone_status" where
  "check_clone_status rep clone_id now =
     (case entanglement_pairs rep clone_id of
        None \<Rightarrow>
          \<lparr>healthy = False, reason = Some ''No entanglement found'', cs_clone_id = None,
           quantum_coherence = None, cs_last_contact = None\<rparr>
      | Some pair \<Rightarrow>
          \<lparr>healthy = True, reason = None, cs_clone_id = Some clone_id,
           quantum_coherence =
             Some (case quantum_state rep clone_id of None \<Rightarrow> 0 | Some st \<Rightarrow> coherence st),
           cs_last_contact = Some now\<rparr>)"

definition repair_clone ::
  "hashlib \<Rightarrow> quantum_replicator \<Rightarrow> string \<Rightarrow> string \<Rightarrow> string \<Rightarrow> bool \<times> quantum_replicator" where
  "repair_clone H rep clone_id rand_hex now =
     (let rep1 =
            (case entanglement_pairs rep clone_id of
               None \<Rightarrow> rep
             | Some pair \<Rightarrow>
                 (let parent_id = parent pair;
                      new_key = establish_quantum_entanglement H clone_id parent_id rand_hex
                  in rep\<lparr>entanglement_pairs :=
                           (entanglement_pairs rep)(clone_id \<mapsto> pair\<lparr>key := new_key\<rparr>)\<rparr>));
          rep2 = snd (capture_quantum_state rep1 clone_id now)
      in (True, rep2))"

definition terminate_clone ::
  "quantum_replicator \<Rightarrow> db_handler \<Rightarrow> string \<Rightarrow> string
     \<Rightarrow> bool \<times> quantum_replicator \<times> db_handler" where
  "terminate_clone rep h clone_id now =
     (let rep1 = (if entanglement_pairs rep clone_id \<noteq> None
                  then rep\<lparr>entanglement_pairs := (entanglement_pairs rep)(clone_id := None)\<rparr>
                  else rep);
          rep2 = (if quantum_state rep1 clone_id \<noteq> None
                  then rep1\<lparr>quantum_state := (quantum_state rep1)(clone_id := None)\<rparr>
                  else rep1)
      in case db_terminate_clone h clone_id now of
           Inl e \<Rightarrow> (False, rep2, h)
         | Inr h' \<Rightarrow> (True, rep2, h'))"

section \<open>Reconnaissance simulator (\<^verbatim>\<open>stealth_operations.py\<close>)\<close>

text \<open>
  What the module uses of the standard library \<^verbatim>\<open>ipaddress\<close>, for an address type \<open>'h\<close>:
  \<open>ip_network_hosts s\<close> is \<^verbatim>\<open>list(ipaddress.ip_network(s, strict=False).hosts())\<close>,
  \<open>ip_network_str s\<close> is \<^verbatim>\<open>str(ipaddress.ip_network(s, strict=False))\<close>, both with the
  library's exception for a string that does not parse, and \<open>host_str\<close> is \<^verbatim>\<open>str\<close> on an
  address.
\<close>

record 'h ipaddress_lib =
  ip_network_hosts :: "string \<Rightarrow> py_error + 'h list"
  ip_network_str :: "string \<Rightarrow> py_error + string"
  host_str :: "'h \<Rightarrow> string"

record stealth_module =
  active :: bool
  stealth_level :: string
  evasion_techniques :: "string list"
  discovered_targets :: "string \<rightharpoonup> target_info"

definition StealthModule_init :: stealth_module where
  "StealthModule_init =
     \<lparr>active = False, stealth_level = ''maximum'', evasion_techniques = [],
      discovered_targets = Map.empty\<rparr>"

definition activate :: "stealth_module \<Rightarrow> stealth_module" where
  "activate sm =
     sm\<lparr>evasion_techniques :=
          [''traffic_randomization'', ''packet_fragmentation'', ''timing_obfuscation'',
           ''protocol_mimicry'', ''proxy_chaining''],
        active := True\<rparr>"

definition deactivate :: "stealth_module \<Rightarrow> stealth_module" where
  "deactivate sm = sm\<lparr>active := False, evasion_techniques := []\<rparr>"

definition detect_local_network :: string where
  "detect_local_network = ''192.168.1.0/24''"

text \<open>\<^verbatim>\<open>_is_host_alive\<close>, on the outcome of its \<^verbatim>\<open>random.random()\<close>.\<close>

definition is_host_alive :: "real \<Rightarrow> bool" where
  "is_host_alive draw = (0.7 < draw)"

text \<open>
  The standard library's \<^verbatim>\<open>random.shuffle\<close>: for \<open>i\<close> from the last index down to 1, the
  element at \<open>i\<close> is exchanged with the one at a drawn index \<open>j \<le> i\<close>. \<open>shuffle_from draws i xs\<close>
  runs the iterations \<open>i, i - 1, \<dots>, 1\<close>.
\<close>

fun shuffle_from :: "(nat \<Rightarrow> nat) \<Rightarrow> nat \<Rightarrow> 'a list \<Rightarrow> 'a list" where
  "shuffle_from draws 0 xs = xs"
| "shuffle_from draws (Suc i) xs =
     (let j = draws (Suc i) mod (Suc i + 1)
      in shuffle_from draws i (xs[Suc i := xs ! j, j := xs ! Suc i]))"

definition random_shuffle :: "(nat \<Rightarrow> nat) \<Rightarrow> 'a list \<Rightarrow> 'a list" where
  "random_shuffle draws xs = shuffle_from draws (length xs - 1) xs"

text \<open>
  The draws of one scan: \<open>shuffle_draws\<close> feed \<^verbatim>\<open>random.shuffle\<close>, and \<open>alive_draws k\<close> is
  the \<^verbatim>\<open>random.random()\<close> of the \<open>k\<close>-th host tested. The drawn delays only pass time.
\<close>

record scan_draws =
  shuffle_draws :: "nat \<Rightarrow> nat"
  alive_draws :: "nat \<Rightarrow> real"

text \<open>The loop over the hosts; \<open>targets\<close> is the list appended to, \<open>k\<close> counts the hosts tested.\<close>

fun scan_hosts ::
  "('h \<Rightarrow> string) \<Rightarrow> (nat \<Rightarrow> real) \<Rightarrow> nat \<Rightarrow> 'h list \<Rightarrow> string list \<Rightarrow> string list" where
  "scan_hosts str alive k [] targets = targets"
| "scan_hosts str alive k (host # rest) targets =
     (let target_ip = str host
      in scan_hosts str alive (Suc k) rest
           (if is_host_alive (alive k) then targets @ [target_ip] else targets))"

text \<open>\<^verbatim>\<open>if not network_range: network_range = await self._detect_local_network()\<close>\<close>

definition range_or_default :: "string option \<Rightarrow> string" where
  "range_or_default network_range =
     (if py_truthy network_range
      then (case network_range of Some r \<Rightarrow> r | None \<Rightarrow> detect_local_network)
      else detect_local_network)"

definition scan_targets ::
  "'h ipaddress_lib \<Rightarrow> string option \<Rightarrow> scan_draws \<Rightarrow> string list" where
  "scan_targets lib network_range dr =
     (let network_range1 = range_or_default network_range
      in case ip_network_hosts lib network_range1 of
           Inl e \<Rightarrow> []
         | Inr hosts0 \<Rightarrow>
             (let hosts = random_shuffle (shuffle_draws dr) hosts0
              in scan_hosts (host_str lib) (alive_draws dr) 0 (take 50 hosts) []))"

text \<open>
  \<^verbatim>\<open>random.choice\<close> on a non-empty sequence: the element at the drawn index. Every call
  site but \<^verbatim>\<open>establish_connection\<close> passes a non-empty literal.
\<close>

definition random_choice :: "nat \<Rightarrow> 'a list \<Rightarrow> 'a" where
  "random_choice draw xs = xs ! (draw mod length xs)"

text \<open>The raw draws of one \<^verbatim>\<open>gather_intelligence\<close>, in the order of the calls.\<close>

record intel_draws =
  os_draw :: nat
  port_count_draw :: nat
  port_sample_draws :: "nat \<Rightarrow> nat"
  service_count_draw :: nat
  service_sample_draws :: "nat \<Rightarrow> nat"
  vuln_count_draw :: nat
  vuln_sample_draws :: "nat \<Rightarrow> nat"
  firewall_draw :: nat
  ids_draw :: nat
  patch_draw :: nat
  hardening_draw :: real
  risk_label_draw :: nat
  neighbors_draw :: nat
  network_type_draw :: nat

definition fingerprint_os :: "intel_draws \<Rightarrow> os_fingerprint" where
  "fingerprint_os dr =
     random_choice (os_draw dr)
       [\<lparr>os = ''Linux'', os_version = ''Ubuntu 22.04'', kernel = Some ''5.15'', build = None\<rparr>,
        \<lparr>os = ''Windows'', os_version = ''Windows Server 2019'', kernel = None,
         build = Some ''17763''\<rparr>,
        \<lparr>os = ''Linux'', os_version = ''CentOS 8'', kernel = Some ''4.18'', build = None\<rparr>,
        \<lparr>os = ''Windows'', os_version = ''Windows 10'', kernel = None, build = Some ''19045''\<rparr>]"

definition sample_or_empty :: "py_error + 'a list \<Rightarrow> 'a list" where
  "sample_or_empty r = (case r of Inl e \<Rightarrow> [] | Inr xs \<Rightarrow> xs)"

text \<open>
  The three samples below ask for at most as many elements as the literal holds, so
  \<^verbatim>\<open>random.sample\<close> does not raise there.
\<close>

definition scan_ports :: "intel_draws \<Rightarrow> port_entry list" where
  "scan_ports dr =
     (let common_ports =
            [\<lparr>port = 22, port_service = ''SSH'', port_state = ''open''\<rparr>,
             \<lparr>port = 80, port_service = ''HTTP'', port_state = ''open''\<rparr>,
             \<lparr>port = 443, port_service = ''HTTPS'', port_state = ''open''\<rparr>,
             \<lparr>port = 3306, port_service = ''MySQL'', port_state = ''filtered''\<rparr>,
             \<lparr>port = 8080, port_service = ''HTTP-Proxy'', port_state = ''open''\<rparr>];
          num_open = 1 + int (port_count_draw dr mod 4)
      in sample_or_empty (random_sample (port_sample_draws dr) common_ports num_open))"

definition identify_services :: "intel_draws \<Rightarrow> service_entry list" where
  "identify_services dr =
     (let svcs =
            [\<lparr>svc_name = ''OpenSSH'', svc_version = ''8.2p1'', svc_port = 22\<rparr>,
             \<lparr>svc_name = ''Apache'', svc_version = ''2.4.41'', svc_port = 80\<rparr>,
             \<lparr>svc_name = ''nginx'', svc_version = ''1.18.0'', svc_port = 443\<rparr>]
      in sample_or_empty
           (random_sample (service_sample_draws dr) svcs
              (1 + int (service_count_draw dr mod 3))))"

definition check_vulnerabilities :: "intel_draws \<Rightarrow> vulnerability list" where
  "check_vulnerabilities dr =
     (let vulns =
            [\<lparr>cve = ''CVE-2024-0001'', severity = ''high'',
              description = ''Remote code execution'', exploitable = True\<rparr>,
             \<lparr>cve = ''CVE-2024-0002'', severity = ''medium'',
              description = ''Information disclosure'', exploitable = True\<rparr>];
          num_vulns = int (vuln_count_draw dr mod 3)
      in if 0 < num_vulns
         then sample_or_empty (random_sample (vuln_sample_draws dr) vulns num_vulns)
         else [])"

text \<open>\<^verbatim>\<open>random.uniform(a, b)\<close> is \<open>a + (b - a) * random()\<close>.\<close>

definition assess_security :: "intel_draws \<Rightarrow> security_posture" where
  "assess_security dr =
     \<lparr>firewall_detected = random_choice (firewall_draw dr) [True, False],
      ids_ips_active = random_choice (ids_draw dr) [True, False],
      patch_level = random_choice (patch_draw dr) [''current'', ''outdated'', ''critical''],
      hardening_score = 0.3 + (0.9 - 0.3) * hardening_draw dr,
      overall_risk = random_choice (risk_label_draw dr) [''low'', ''medium'', ''high'']\<rparr>"

text \<open>\<^verbatim>\<open>str.split(sep)\<close> for a one-character separator, and \<^verbatim>\<open>sep.join\<close>.\<close>

fun py_split :: "char \<Rightarrow> string \<Rightarrow> string list" where
  "py_split sep [] = [[]]"
| "py_split sep (c # cs) =
     (if c = sep then [] # py_split sep cs
      else (case py_split sep cs of
              [] \<Rightarrow> [[c]]
            | w # ws \<Rightarrow> (c # w) # ws))"

fun py_join :: "string \<Rightarrow> string list \<Rightarrow> string" where
  "py_join sep [] = []"
| "py_join sep [w] = w"
| "py_join sep (w # ws) = w @ sep @ py_join sep ws"

definition map_topology ::
  "'h ipaddress_lib \<Rightarrow> string \<Rightarrow> intel_draws \<Rightarrow> py_error + network_topology" where
  "map_topology lib ip dr =
     (case ip_network_str lib (ip @ ''/24'') of
        Inl e \<Rightarrow> Inl e
      | Inr net \<Rightarrow>
          Inr \<lparr>subnet = net,
               gateway = py_join ''.'' (butlast (py_split (CHR ''.'') ip) @ [''1'']),
               neighbors = 5 + int (neighbors_draw dr mod 16),
               network_type =
                 random_choice (network_type_draw dr) [''flat'', ''segmented'', ''vlan'']\<rparr>)"

text \<open>
  \<^verbatim>\<open>gather_intelligence\<close>: the snapshot is cached under the address. An address that the
  library rejects raises before the cache is written.
\<close>

definition gather_intelligence ::
  "'h ipaddress_lib \<Rightarrow> stealth_module \<Rightarrow> string \<Rightarrow> intel_draws \<Rightarrow> string
     \<Rightarrow> py_error + target_info \<times> stealth_module" where
  "gather_intelligence lib sm target_ip dr now =
     (case map_topology lib target_ip dr of
        Inl e \<Rightarrow> Inl e
      | Inr topo \<Rightarrow>
          (let intelligence =
                 \<lparr>ip_address = target_ip, timestamp = now,
                  os_fingerprint = fingerprint_os dr,
                  open_ports = scan_ports dr,
                  services = identify_services dr,
                  vulnerabilities = check_vulnerabilities dr,
                  security_posture = assess_security dr,
                  network_topology = topo\<rparr>
           in Inr (intelligence,
                   sm\<lparr>discovered_targets := (discovered_targets sm)(target_ip \<mapsto> intelligence)\<rparr>)))"

record connection_rec =
  conn_target_ip :: string
  conn_established_at :: string
  technique :: string
  encrypted :: bool
  protocol :: string
  conn_status :: string

text \<open>\<^verbatim>\<open>random.choice\<close> raises \<^verbatim>\<open>IndexError\<close> on the empty list of a module not activated.\<close>

definition establish_connection ::
  "stealth_module \<Rightarrow> string \<Rightarrow> nat \<Rightarrow> string \<Rightarrow> py_error + connection_rec" where
  "establish_connection sm target_ip draw now =
     (if evasion_techniques sm = [] then Inl IndexError
      else Inr \<lparr>conn_target_ip = target_ip, conn_established_at = now,
                technique = random_choice draw (evasion_techniques sm),
                encrypted = True, protocol = ''custom'', conn_status = ''active''\<rparr>)"

section \<open>Replication sequence (\<^verbatim>\<open>QuantumReplicator.replicate\<close>)\<close>

record clone_info =
  ci_clone_id :: string
  ci_parent_id :: string
  ci_target_ip :: string
  ci_created_at :: string
  entanglement_key :: string
  ci_status :: string
  ci_quantum_state :: quantum_state_rec

record verification =
  vr_success :: bool
  vr_clone_id :: string
  verification_code :: string

text \<open>The three simulated steps wait and change nothing.\<close>

definition transfer_payload :: "connection_rec \<Rightarrow> replication_package \<Rightarrow> unit" where
  "transfer_payload conn package = ()"

definition initialize_remote_clone :: "connection_rec \<Rightarrow> string \<Rightarrow> string \<Rightarrow> bool \<times> string \<times> string" where
  "initialize_remote_clone conn clone_id ekey = (True, clone_id, ''initialized'')"

definition verify_replication :: "hashlib \<Rightarrow> connection_rec \<Rightarrow> string \<Rightarrow> verification" where
  "verify_replication H conn clone_id =
     \<lparr>vr_success = True, vr_clone_id = clone_id, verification_code = md5_hexdigest H clone_id\<rparr>"

text \<open>
  \<open>clock k\<close> is the \<open>k\<close>-th reading of \<^verbatim>\<open>datetime.now()\<close> within the call. The branch of a
  failed verification reads the key \<^verbatim>\<open>'error'\<close>, which the verification result lacks.
\<close>

definition replicate ::
  "hashlib \<Rightarrow> quantum_replicator \<Rightarrow> db_handler \<Rightarrow> (string \<times> string) list \<Rightarrow> string
     \<Rightarrow> (nat \<Rightarrow> string) \<Rightarrow> string \<Rightarrow> connection_rec \<Rightarrow> string
     \<Rightarrow> py_error + clone_info \<times> quantum_replicator" where
  "replicate H rep h files rand_hex clock target_ip conn parent_id =
     (let clone_id = generate_quantum_id H target_ip parent_id (clock 0)
      in case create_replication_package H h files clone_id parent_id (clock 1) (clock 2) of
           Inl e \<Rightarrow> Inl e
         | Inr package \<Rightarrow>
             (let ekey = establish_quantum_entanglement H clone_id parent_id rand_hex;
                  sent = transfer_payload conn package;
                  initialization_result = initialize_remote_clone conn clone_id ekey;
                  verif = verify_replication H conn clone_id
              in if vr_success verif
                 then (let created = clock 3;
                           (st, rep1) = capture_quantum_state rep clone_id (clock 4);
                           info = \<lparr>ci_clone_id = clone_id, ci_parent_id = parent_id,
                                   ci_target_ip = target_ip, ci_created_at = created,
                                   entanglement_key = ekey, ci_status = ''active'',
                                   ci_quantum_state = st\<rparr>;
                           rep2 = rep1\<lparr>entanglement_pairs :=
                                    (entanglement_pairs rep1)(clone_id \<mapsto>
                                       \<lparr>parent = parent_id, key = ekey,
                                        established_at = Some (clock 5)\<rparr>)\<rparr>
                       in Inr (info, rep2))
                 else Inl (KeyError ''error'')))"

section \<open>Orchestrator (\<^verbatim>\<open>ouroboros_zero.py\<close>)\<close>

record ouroboros_zero =
  config_path :: string
  running :: bool
  oz_clone_id :: string
  oz_db_handler :: db_handler
  oz_quantum_replicator :: quantum_replicator
  oz_stealth_module :: stealth_module
  oz_ai_engine :: ai_decision_engine
  replication_targets :: "string list"
  active_connections :: "string \<rightharpoonup> connection_rec"
  clone_registry :: "string \<rightharpoonup> clone_info"

text \<open>\<open>stamp\<close> is the clock formatted as \<^verbatim>\<open>%Y%m%d%H%M%S\<close>.\<close>

definition generate_clone_id :: "string \<Rightarrow> string" where
  "generate_clone_id stamp = ''OUROBOROS-'' @ stamp"

definition OuroborosZero_init :: "string \<Rightarrow> string \<Rightarrow> ouroboros_zero" where
  "OuroborosZero_init path stamp =
     \<lparr>config_path = path, running = False, oz_clone_id = generate_clone_id stamp,
      oz_db_handler = DatabaseHandler_init ''data/replicator.db'',
      oz_quantum_replicator = QuantumReplicator_init,
      oz_stealth_module = StealthModule_init,
      oz_ai_engine = AIDecisionEngine_init,
      replication_targets = [], active_connections = Map.empty, clone_registry = Map.empty\<rparr>"

text \<open>
  \<^verbatim>\<open>initialize\<close>: \<open>opened\<close> and \<open>loaded\<close> are what the store gives on opening and on reading
  the learning history. What was done before an exception stays done.
\<close>

definition initialize ::
  "py_error + database \<Rightarrow> py_error + learning_entry list \<Rightarrow> string \<Rightarrow> ouroboros_zero
     \<Rightarrow> bool \<times> ouroboros_zero" where
  "initialize opened loaded now oz =
     (case connect opened (oz_db_handler oz) of
        Inl e \<Rightarrow> (False, oz)
      | Inr h1 \<Rightarrow>
          (let h2 = snd (register_clone h1 (oz_clone_id oz) None None now);
               oz1 = oz\<lparr>oz_db_handler := h2\<rparr>
           in case initialize_engine loaded (oz_ai_engine oz1) of
                Inl e \<Rightarrow> (False, oz1)
              | Inr eng \<Rightarrow>
                  (True, oz1\<lparr>oz_ai_engine := eng,
                             oz_stealth_module := activate (oz_stealth_module oz1)\<rparr>)))"

text \<open>Everything outside the program that one call of \<^verbatim>\<open>replicate_to_target\<close> reads.\<close>

record environment =
  intel :: intel_draws
  technique_draw :: nat
  source_files :: "(string \<times> string) list"
  urandom_hex :: string
  clock :: "nat \<Rightarrow> string"

text \<open>
  The orchestrator's \<^verbatim>\<open>evaluate_target\<close>. The state is returned beside the outcome: the
  snapshot cached and the evaluation recorded before an exception of the store stay.
\<close>

definition oz_evaluate_target ::
  "'h ipaddress_lib \<Rightarrow> ouroboros_zero \<Rightarrow> string \<Rightarrow> environment
     \<Rightarrow> (py_error + evaluation) \<times> ouroboros_zero" where
  "oz_evaluate_target lib oz target_ip env =
     (case gather_intelligence lib (oz_stealth_module oz) target_ip (intel env) (clock env 0) of
        Inl e \<Rightarrow> (Inl e, oz)
      | Inr (ti, sm) \<Rightarrow>
          (let (ev, eng) = evaluate_target (oz_ai_engine oz) ti (clock env 1);
               oz1 = oz\<lparr>oz_stealth_module := sm, oz_ai_engine := eng\<rparr>
           in case store_target_evaluation (oz_db_handler oz1) target_ip ev of
                Inl e \<Rightarrow> (Inl e, oz1)
              | Inr h \<Rightarrow> (Inr ev, oz1\<lparr>oz_db_handler := h\<rparr>)))"

definition replicate_to_target ::
  "'h ipaddress_lib \<Rightarrow> hashlib \<Rightarrow> ouroboros_zero \<Rightarrow> string \<Rightarrow> environment
     \<Rightarrow> bool \<times> ouroboros_zero" where
  "replicate_to_target lib H oz target_ip env =
     (case oz_evaluate_target lib oz target_ip env of
        (Inl e, oz1) \<Rightarrow> (False, oz1)
      | (Inr ev, oz1) \<Rightarrow>
          if 0.7 < risk_score ev then (False, oz1)
          else (case establish_connection (oz_stealth_module oz1) target_ip
                       (technique_draw env) (clock env 2) of
                  Inl e \<Rightarrow> (False, oz1)
                | Inr conn \<Rightarrow>
                    (let oz2 = oz1\<lparr>active_connections :=
                                     (active_connections oz1)(target_ip \<mapsto> conn)\<rparr>
                     in case replicate H (oz_quantum_replicator oz2) (oz_db_handler oz2)
                               (source_files env) (urandom_hex env)
                               (\<lambda>k. clock env (k + 3)) target_ip conn (oz_clone_id oz2) of
                          Inl e \<Rightarrow> (False, oz2)
                        | Inr (info, rep) \<Rightarrow>
                            (let oz3 = oz2\<lparr>oz_quantum_replicator := rep,
                                           clone_registry :=
                                             (clone_registry oz2)(ci_clone_id info \<mapsto> info)\<rparr>;
                                 h = snd (register_clone (oz_db_handler oz3) (ci_clone_id info)
                                            (Some (oz_clone_id oz3)) (Some target_ip)
                                            (clock env 9))
                             in (True, oz3\<lparr>oz_db_handler := h\<rparr>)))))"

section \<open>Observations and fixtures\<close>

text \<open>What the store holds for a clone id: its generation and its status.\<close>

definition stored_generation :: "db_handler \<Rightarrow> string \<Rightarrow> int option" where
  "stored_generation h cid =
     (case connection h of None \<Rightarrow> None | Some db \<Rightarrow> map_option generation (clones db cid))"

definition stored_status :: "db_handler \<Rightarrow> string \<Rightarrow> string option" where
  "stored_status h cid =
     (case connection h of None \<Rightarrow> None | Some db \<Rightarrow> map_option status (clones db cid))"

text \<open>The table of clones, when the store is connected.\<close>

definition stored_clones :: "db_handler \<Rightarrow> (string \<rightharpoonup> clone_row) option" where
  "stored_clones h = map_option clones (connection h)"

text \<open>A connected in-memory store without rows, as the test suites use.\<close>

definition memory_handler :: db_handler where
  "memory_handler = \<lparr>db_path = '':memory:'', connection = Some empty_database\<rparr>"

definition parent_registered :: db_handler where
  "parent_registered =
     snd (register_clone memory_handler ''PARENT-001'' None None ''2024-01-01T00:00:00'')"

definition empty_id_registered :: db_handler where
  "empty_id_registered =
     snd (register_clone memory_handler '''' None None ''2024-01-01T00:00:00'')"

definition clone_registered :: db_handler where
  "clone_registered =
     snd (register_clone memory_handler ''CLONE-001'' None None ''2024-01-01T00:00:00'')"

text \<open>The replicator of the test suite: one entangled clone with a captured state.\<close>

definition test_key_replicator :: quantum_replicator where
  "test_key_replicator =
     snd (capture_quantum_state
       (QuantumReplicator_init\<lparr>entanglement_pairs :=
          [''CLONE-001'' \<mapsto>
             \<lparr>parent = ''PARENT-001'', key = ''test-key'', established_at = None\<rparr>]\<rparr>)
       ''CLONE-001'' ''2024-01-01T00:00:02'')"

text \<open>Digest functions for the examples: any functions serve, these return their input.\<close>

definition echo_hashlib :: hashlib where
  "echo_hashlib =
     \<lparr>sha256_hexdigest = (\<lambda>s. s), sha512_hexdigest = (\<lambda>s. s), md5_hexdigest = (\<lambda>s. s)\<rparr>"

text \<open>An engine after \<^verbatim>\<open>initialize\<close> with an empty learning history, and seven targets.\<close>

definition demo_engine :: ai_decision_engine where
  "demo_engine =
     (case initialize_engine (Inr []) AIDecisionEngine_init of
        Inr e \<Rightarrow> e
      | Inl _ \<Rightarrow> AIDecisionEngine_init)"

definition demo_targets :: "string list" where
  "demo_targets =
     [''10.0.0.1'', ''10.0.0.2'', ''10.0.0.3'', ''10.0.0.4'', ''10.0.0.5'', ''10.0.0.6'',
      ''10.0.0.7'']"

text \<open>Decimal digits of a natural number.\<close>

fun decimal :: "nat \<Rightarrow> string" where
  "decimal n =
     (if n < 10 then [char_of (48 + n)]
      else decimal (n div 10) @ [char_of (48 + n mod 10)])"

declare decimal.simps [simp del]

text \<open>
  The answers of \<^verbatim>\<open>ipaddress\<close> on the strings of the examples, with an address of
  \<^verbatim>\<open>192.168.1.0/24\<close> held as its last octet: the network has the hosts \<^verbatim>\<open>.1\<close> to \<^verbatim>\<open>.254\<close>,
  and the empty string and \<^verbatim>\<open>not a network\<close> do not parse. The table answers every other
  string with \<^verbatim>\<open>ValueError\<close> too; the examples ask for no other.
\<close>

definition default_hosts :: "nat list" where
  "default_hosts = [1..<255]"

definition lib_sample :: "nat ipaddress_lib" where
  "lib_sample =
     \<lparr>ip_network_hosts =
        (\<lambda>s. if s = ''192.168.1.0/24'' then Inr default_hosts else Inl (ValueError s)),
      ip_network_str =
        (\<lambda>s. if s = ''192.168.1.10/24'' then Inr ''192.168.1.0/24'' else Inl (ValueError s)),
      host_str = (\<lambda>n. ''192.168.1.'' @ decimal n)\<rparr>"

text \<open>Draws that leave the order of the hosts as it is and find every host alive.\<close>

definition all_alive :: scan_draws where
  "all_alive = \<lparr>shuffle_draws = (\<lambda>i. i), alive_draws = (\<lambda>k. 0.9)\<rparr>"

text \<open>
  Draws of one \<^verbatim>\<open>gather_intelligence\<close> that find a well-defended host (firewall, IDS,
  current patches, hardening \<open>0.3 + 0.6 * 0.99\<close>, no vulnerability), and the snapshot that
  they give for \<^verbatim>\<open>192.168.1.10\<close>.
\<close>

definition hardened_draws :: intel_draws where
  "hardened_draws =
     \<lparr>os_draw = 0, port_count_draw = 0, port_sample_draws = (\<lambda>i. 0),
      service_count_draw = 0, service_sample_draws = (\<lambda>i. 0),
      vuln_count_draw = 0, vuln_sample_draws = (\<lambda>i. 0),
      firewall_draw = 0, ids_draw = 0, patch_draw = 0, hardening_draw = 0.99,
      risk_label_draw = 2, neighbors_draw = 0, network_type_draw = 0\<rparr>"

definition hardened_target :: target_info where
  "hardened_target =
     \<lparr>ip_address = ''192.168.1.10'', timestamp = ''2024-01-01T00:00:10'',
      os_fingerprint = fingerprint_os hardened_draws,
      open_ports = scan_ports hardened_draws,
      services = identify_services hardened_draws,
      vulnerabilities = check_vulnerabilities hardened_draws,
      security_posture = assess_security hardened_draws,
      network_topology =
        \<lparr>subnet = ''192.168.1.0/24'', gateway = ''192.168.1.1'', neighbors = 5,
         network_type = ''flat''\<rparr>\<rparr>"

definition hardened_env :: environment where
  "hardened_env =
     \<lparr>intel = hardened_draws, technique_draw = 0, source_files = [], urandom_hex = ''00'',
      clock = (\<lambda>k. ''2024-01-01T00:00:10'')\<rparr>"

text \<open>An orchestrator after a successful \<^verbatim>\<open>initialize\<close> on an empty store.\<close>

definition demo_oz :: ouroboros_zero where
  "demo_oz =
     snd (initialize (Inr empty_database) (Inr []) ''2024-01-01T00:00:00''
            (OuroborosZero_init ''config/config.yaml'' ''20240101000000''))"

section \<open>Package surface\<close>

text \<open>
  C9. The claim is that every name of \<^verbatim>\<open>__all__\<close> is a type the package defines. The first
  name of the list, \<^verbatim>\<open>AutonomousReplicator\<close>, is bound nowhere in the package (the
  orchestrator is imported as \<^verbatim>\<open>OuroborosZero\<close>, which the list omits), so a star import
  of the package raises \<^verbatim>\<open>AttributeError\<close>.
\<close>

theorem all_names_unresolved:
  "''AutonomousReplicator'' \<in> set all_names \<and>
   ''AutonomousReplicator'' \<notin> set package_namespace \<and>
   ''OuroborosZero'' \<in> set imported_names \<and>
   ''OuroborosZero'' \<notin> set all_names \<and>
   star_import package_namespace all_names = Inl AttributeError"
  by (simp add: all_names_def package_namespace_def marker_names_def submodule_names_def
        imported_names_def)

section \<open>Decision engine\<close>

lemma py_round_unit:
  assumes "0 \<le> x" "x \<le> 1"
  shows "0 \<le> py_round x 3 \<and> py_round x 3 \<le> 1"
proof -
  define s where "s = x * 1000"
  define f where "f = \<lfloor>s\<rfloor>"
  define r where "r = (if s - of_int f < 1 / 2 then f
               else if 1 / 2 < s - of_int f then f + 1
               else if even f then f else f + 1)"
  have s: "0 \<le> s" "s \<le> 1000" using assms by (simp_all add: s_def)
  have f0: "0 \<le> f" using s by (simp add: f_def)
  have f1: "f \<le> 1000" using s unfolding f_def by (simp add: floor_le_iff)
  have r0: "0 \<le> r" using f0 by (simp add: r_def)
  have r1: "r \<le> 1000"
  proof (cases "f = 1000")
    case True
    then have "s - of_int f \<le> 0" using s by simp
    then show ?thesis using True by (simp add: r_def)
  next
    case False
    then have "f + 1 \<le> 1000" using f1 by simp
    then show ?thesis by (simp add: r_def)
  qed
  have eq: "py_round x 3 = of_int r / 1000"
    by (simp add: py_round_def Let_def s_def f_def r_def)
  have "(0::real) \<le> of_int r" using r0 by simp
  moreover have "(of_int r :: real) \<le> 1000" using r1 by linarith
  ultimately show ?thesis unfolding eq by simp
qed

lemma weighted_343:
  fixes a b c :: real
  assumes "0 \<le> a" "a \<le> 1" "0 \<le> b" "b \<le> 1" "0 \<le> c" "c \<le> 1"
  shows "0 \<le> a * 0.3 + b * 0.4 + c * 0.3 \<and> a * 0.3 + b * 0.4 + c * 0.3 \<le> 1"
  using assms by simp

lemma weighted_442:
  fixes a b c :: real
  assumes "0 \<le> a" "a \<le> 1" "0 \<le> b" "b \<le> 1" "0 \<le> c" "c \<le> 1"
  shows "0 \<le> a * 0.4 + b * 0.4 + (1 - c) * 0.2 \<and> a * 0.4 + b * 0.4 + (1 - c) * 0.2 \<le> 1"
proof
  show "0 \<le> a * 0.4 + b * 0.4 + (1 - c) * 0.2" using assms by simp
  have "a * 0.4 + b * 0.4 + (1 - c) * 0.2 \<le> 1 * 0.4 + 1 * 0.4 + (1 - 0) * 0.2"
    using assms by (intro add_mono mult_right_mono) simp_all
  then show "a * 0.4 + b * 0.4 + (1 - c) * 0.2 \<le> 1" by simp
qed

lemma assess_security_risk_bounds:
  "0 \<le> hardening_score (security_posture ti) \<Longrightarrow>
   0 \<le> assess_security_risk ti \<and> assess_security_risk ti \<le> 1"
  by (simp add: assess_security_risk_def Let_def)

lemma detection_patch_factor_bounds:
  "0.2 \<le> detection_patch_factor l \<and> detection_patch_factor l \<le> 0.7"
  by (simp add: detection_patch_factor_def)

lemma assess_detection_risk_bounds:
  "0 \<le> assess_detection_risk ti \<and> assess_detection_risk ti \<le> 1"
proof -
  let ?v = "max 0 (1 - real (length (vulnerabilities ti)) * 0.2)"
  let ?m = "(if ids_ips_active (security_posture ti) then 0.5 else 0.1 :: real)"
  let ?p = "detection_patch_factor (patch_level (security_posture ti))"
  have v: "0 \<le> ?v" "?v \<le> 1" by simp_all
  have m: "0 \<le> ?m" "?m \<le> 1" by simp_all
  have p: "0 \<le> ?p" "?p \<le> 1" using detection_patch_factor_bounds [of "patch_level (security_posture ti)"] by linarith+
  have eq: "assess_detection_risk ti = ?v * 0.3 + ?m * 0.4 + ?p * 0.3"
    by (simp add: assess_detection_risk_def Let_def)
  show ?thesis unfolding eq using v m p by (intro weighted_343)
qed

lemma predict_success_bounds:
  "0 \<le> predict_success fs \<and> predict_success fs \<le> 1"
  by (simp add: predict_success_def Let_def)

lemma service_value_mono: "v \<le> service_value ss v"
proof (induction ss arbitrary: v)
  case Nil
  show ?case by simp
next
  case (Cons s ss)
  have "v \<le> (if svc_name s \<in> set [''MySQL'', ''PostgreSQL'', ''MongoDB''] then v + 0.15
        else if svc_name s \<in> set [''Apache'', ''nginx''] then v + 0.1
        else v)" by simp
  also have "\<dots> \<le> service_value (s # ss) v" using Cons.IH by simp
  finally show ?case .
qed

lemma assess_strategic_value_bounds:
  assumes "0 \<le> neighbors (network_topology ti)"
  shows "0 \<le> assess_strategic_value ti \<and> assess_strategic_value ti \<le> 1"
proof -
  let ?v2 = "0.3 + real (length (open_ports ti)) * 0.05
             + min (of_int (neighbors (network_topology ti)) * 0.02) (0.3::real)"
  have "0 \<le> min (of_int (neighbors (network_topology ti)) * 0.02) (0.3::real)"
    using assms by simp
  then have "0 \<le> ?v2" by (simp add: add_nonneg_nonneg)
  also have "?v2 \<le> service_value (services ti) ?v2" by (rule service_value_mono)
  finally have "0 \<le> service_value (services ti) ?v2" .
  then show ?thesis by (simp add: assess_strategic_value_def Let_def)
qed

lemma combined_risk_bounds:
  assumes "0 \<le> hardening_score (security_posture ti)"
  shows "0 \<le> combined_risk ti \<and> combined_risk ti \<le> 1"
proof -
  have s: "0 \<le> assess_security_risk ti" "assess_security_risk ti \<le> 1"
    using assess_security_risk_bounds [OF assms] by simp_all
  have d: "0 \<le> assess_detection_risk ti" "assess_detection_risk ti \<le> 1"
    using assess_detection_risk_bounds [of ti] by simp_all
  have p: "0 \<le> predict_success (extract_features ti)" "predict_success (extract_features ti) \<le> 1"
    using predict_success_bounds [of "extract_features ti"] by simp_all
  show ?thesis unfolding combined_risk_def using s d p by (intro weighted_442)
qed

lemma hardened_posture:
  "security_posture hardened_target =
     \<lparr>firewall_detected = True, ids_ips_active = True, patch_level = ''current'',
      hardening_score = 0.894, overall_risk = ''high''\<rparr>"
  by (simp add: hardened_target_def assess_security_def hardened_draws_def random_choice_def)

lemma hardened_vulns: "vulnerabilities hardened_target = []"
  by (simp add: hardened_target_def check_vulnerabilities_def hardened_draws_def)

lemma hardened_security_risk: "assess_security_risk hardened_target = 0.9576"
  by (simp add: assess_security_risk_def hardened_posture Let_def)

lemma hardened_detection_risk: "assess_detection_risk hardened_target = 0.71"
  by (simp add: assess_detection_risk_def hardened_posture hardened_vulns detection_patch_factor_def Let_def)

lemma hardened_success: "predict_success (extract_features hardened_target) = 0.1212"
  by (simp add: predict_success_def extract_features_def hardened_posture hardened_vulns patch_penalty_def Let_def)

lemma hardened_combined: "combined_risk hardened_target = 0.8428"
  by (simp add: combined_risk_def hardened_security_risk hardened_detection_risk hardened_success)

lemma round_8428: "py_round 0.8428 3 = 0.843"
  by (simp add: py_round_def Let_def)

lemma hardened_risk_score:
  "risk_score (fst (evaluate_target eng hardened_target now)) = 0.843"
proof -
  have "risk_score (fst (evaluate_target eng hardened_target now)) =
          py_round (combined_risk hardened_target) 3"
    by (simp add: evaluate_target_def combined_risk_def Let_def)
  then show ?thesis unfolding hardened_combined round_8428 .
qed

text \<open>
  C2. For every snapshot with a hardening score in \<open>[0, 1]\<close> and a neighbour count that is
  not negative (the other counts are lengths of lists, the flags are booleans, and the
  patch level is any string), the evaluation that \<^verbatim>\<open>evaluate_target\<close> returns has its
  overall risk score and its four sub-scores in \<open>[0, 1]\<close>.
\<close>

theorem evaluate_target_scores_in_unit_interval:
  assumes "0 \<le> hardening_score (security_posture ti)"
      and "hardening_score (security_posture ti) \<le> 1"
      and "0 \<le> neighbors (network_topology ti)"
  shows "0 \<le> risk_score (fst (evaluate_target eng ti now)) \<and>
         risk_score (fst (evaluate_target eng ti now)) \<le> 1 \<and>
         0 \<le> security_risk (fst (evaluate_target eng ti now)) \<and>
         security_risk (fst (evaluate_target eng ti now)) \<le> 1 \<and>
         0 \<le> detection_risk (fst (evaluate_target eng ti now)) \<and>
         detection_risk (fst (evaluate_target eng ti now)) \<le> 1 \<and>
         0 \<le> success_probability (fst (evaluate_target eng ti now)) \<and>
         success_probability (fst (evaluate_target eng ti now)) \<le> 1 \<and>
         0 \<le> strategic_value (fst (evaluate_target eng ti now)) \<and>
         strategic_value (fst (evaluate_target eng ti now)) \<le> 1"
proof -
  have r: "risk_score (fst (evaluate_target eng ti now)) = py_round (combined_risk ti) 3"
    and s: "security_risk (fst (evaluate_target eng ti now)) =
              py_round (assess_security_risk ti) 3"
    and d: "detection_risk (fst (evaluate_target eng ti now)) =
              py_round (assess_detection_risk ti) 3"
    and p: "success_probability (fst (evaluate_target eng ti now)) =
              py_round (predict_success (extract_features ti)) 3"
    and v: "strategic_value (fst (evaluate_target eng ti now)) =
              py_round (assess_strategic_value ti) 3"
    by (simp_all add: evaluate_target_def combined_risk_def Let_def)
  have "0 \<le> py_round (combined_risk ti) 3 \<and> py_round (combined_risk ti) 3 \<le> 1"
    using combined_risk_bounds [OF assms(1)] by (intro py_round_unit) simp_all
  moreover have "0 \<le> py_round (assess_security_risk ti) 3 \<and>
                 py_round (assess_security_risk ti) 3 \<le> 1"
    using assess_security_risk_bounds [OF assms(1)] by (intro py_round_unit) simp_all
  moreover have "0 \<le> py_round (assess_detection_risk ti) 3 \<and>
                 py_round (assess_detection_risk ti) 3 \<le> 1"
    using assess_detection_risk_bounds [of ti] by (intro py_round_unit) simp_all
  moreover have "0 \<le> py_round (predict_success (extract_features ti)) 3 \<and>
                 py_round (predict_success (extract_features ti)) 3 \<le> 1"
    using predict_success_bounds [of "extract_features ti"] by (intro py_round_unit) simp_all
  moreover have "0 \<le> py_round (assess_strategic_value ti) 3 \<and>
                 py_round (assess_strategic_value ti) 3 \<le> 1"
    using assess_strategic_value_bounds [OF assms(3)] by (intro py_round_unit) simp_all
  ultimately show ?thesis unfolding r s d p v by blast
qed

theorem evaluate_target_scores_in_unit_interval_witness:
  "hardening_score (security_posture hardened_target) = 0.894 \<and>
   neighbors (network_topology hardened_target) = 5 \<and>
   risk_score (fst (evaluate_target demo_engine hardened_target ''2024-01-01T00:00:11'')) = 0.843 \<and>
   0 \<le> security_risk (fst (evaluate_target demo_engine hardened_target ''2024-01-01T00:00:11'')) \<and>
   security_risk (fst (evaluate_target demo_engine hardened_target ''2024-01-01T00:00:11'')) \<le> 1 \<and>
   0 \<le> detection_risk (fst (evaluate_target demo_engine hardened_target ''2024-01-01T00:00:11'')) \<and>
   detection_risk (fst (evaluate_target demo_engine hardened_target ''2024-01-01T00:00:11'')) \<le> 1 \<and>
   0 \<le> success_probability
          (fst (evaluate_target demo_engine hardened_target ''2024-01-01T00:00:11'')) \<and>
   success_probability
     (fst (evaluate_target demo_engine hardened_target ''2024-01-01T00:00:11'')) \<le> 1 \<and>
   0 \<le> strategic_value (fst (evaluate_target demo_engine hardened_target ''2024-01-01T00:00:11'')) \<and>
   strategic_value (fst (evaluate_target demo_engine hardened_target ''2024-01-01T00:00:11'')) \<le> 1"
proof -
  have h: "hardening_score (security_posture hardened_target) = 0.894"
    by (simp add: hardened_posture)
  have n: "neighbors (network_topology hardened_target) = 5"
    by (simp add: hardened_target_def)
  have h0: "0 \<le> hardening_score (security_posture hardened_target)"
    and h1: "hardening_score (security_posture hardened_target) \<le> 1"
    and n0: "0 \<le> neighbors (network_topology hardened_target)"
    by (simp_all add: h n)
  show ?thesis
    using evaluate_target_scores_in_unit_interval
            [OF h0 h1 n0, of demo_engine "''2024-01-01T00:00:11''"]
          h n hardened_risk_score [of demo_engine "''2024-01-01T00:00:11''"]
    by simp
qed

text \<open>
  The rounding decides at the thresholds. For the doubles nearest to 0.03, 0.05 and 0.6 as
  risk, value and success probability, the exact \<open>value * success_probability - risk\<close> is
  positive, but the product rounds to the risk, the expected value that the code computes
  is 0, and the recommendation is \<^verbatim>\<open>AVOID\<close>.
\<close>

lemma double_literals:
  "binary64 0.03 = 1080863910568919 / 2 ^ 55"
  "binary64 0.05 = 3602879701896397 / 2 ^ 56"
  "binary64 0.6 = 5404319552844595 / 2 ^ 53"
  "binary64 0.3 = 5404319552844595 / 2 ^ 54"
  "binary64 0.8 = 3602879701896397 / 2 ^ 52"
  by code_simp+

lemma expected_value_rounds_product:
  "0 < binary64 0.05 * binary64 0.6 - binary64 0.03 \<and>
   expected_value (binary64 0.03) (binary64 0.05) (binary64 0.6) = 0 \<and>
   make_recommendation eng (binary64 0.03) (binary64 0.05) (binary64 0.6) = ''AVOID''"
proof -
  have p: "binary64 (binary64 0.05 * binary64 0.6) = binary64 0.03"
    unfolding double_literals by code_simp
  have z: "binary64 0 = 0" by (simp add: binary64_def)
  have e: "expected_value (binary64 0.03) (binary64 0.05) (binary64 0.6) = 0"
    unfolding expected_value_def p by (simp add: z)
  have t: "\<not> binary64 0.3 < 0"
    unfolding double_literals by simp
  have r: "make_recommendation eng (binary64 0.03) (binary64 0.05) (binary64 0.6) = ''AVOID''"
    unfolding make_recommendation_def e using t by simp
  have "0 < binary64 0.05 * binary64 0.6 - binary64 0.03"
    unfolding double_literals by simp
  then show ?thesis using e r by blast
qed


lemma length_sample_pool: "length (sample_pool draws pool i k) = k"
  by (induction k arbitrary: pool i) (simp_all add: Let_def)

lemma demo_engine_parameters:
  "strategy_parameters demo_engine = Some
     \<lparr>target_selection_weight_security = 0.7,
      target_selection_weight_spread = 0.3,
      replication_rate_limit = 5,
      risk_threshold = 0.65,
      learning_rate = 0.01,
      exploration_rate = 0.2\<rparr>"
  by (simp add: demo_engine_def initialize_engine_def AIDecisionEngine_init_def)

text \<open>
  C7. On an engine whose strategy parameters are set, \<^verbatim>\<open>select_targets\<close> returns, for every
  list of available targets and all draws, a list no longer than the list given; and when
  the exploration draw is not below the exploration rate it returns the first
  \<open>min rate_limit N\<close> targets in input order (the rate limit being a count, so not
  negative).
\<close>

theorem select_targets_bounded:
  assumes "strategy_parameters eng = Some sp"
  shows "\<exists>sel. select_targets eng avail dr = Inr sel \<and> length sel \<le> length avail \<and>
           (\<not> explore_draw dr < exploration_rate sp \<and> 0 \<le> replication_rate_limit sp \<longrightarrow>
              sel = take (min (nat (replication_rate_limit sp)) (length avail)) avail)"
proof (cases "explore_draw dr < exploration_rate sp")
  case True
  let ?k = "min (1 + int (count_draw dr mod 3)) (int (length avail))"
  have k: "0 \<le> ?k" "?k \<le> int (length avail)" by simp_all
  have "select_targets eng avail dr = Inr (sample_pool (sample_draws dr) avail 0 (nat ?k))"
    using assms True k by (simp add: select_targets_def random_sample_def Let_def)
  moreover have "length (sample_pool (sample_draws dr) avail 0 (nat ?k)) \<le> length avail"
    using k by (simp add: length_sample_pool)
  ultimately show ?thesis using True by simp
next
  case False
  let ?k = "min (replication_rate_limit sp) (int (length avail))"
  have sel: "select_targets eng avail dr = Inr (py_slice_to avail ?k)"
    using assms False by (simp add: select_targets_def Let_def)
  have len: "length (py_slice_to avail ?k) \<le> length avail"
    by (simp add: py_slice_to_def min_def)
  have "py_slice_to avail ?k = take (min (nat (replication_rate_limit sp)) (length avail)) avail"
    if "0 \<le> replication_rate_limit sp"
  proof -
    have "nat ?k = min (nat (replication_rate_limit sp)) (length avail)"
      using that by (simp add: min_def)
    then show ?thesis using that by (simp add: py_slice_to_def)
  qed
  then show ?thesis using sel len by simp
qed

theorem select_targets_bounded_witness:
  "select_targets demo_engine demo_targets
      \<lparr>explore_draw = 0.5, count_draw = 0, sample_draws = (\<lambda>i. 0)\<rparr>
     = Inr [''10.0.0.1'', ''10.0.0.2'', ''10.0.0.3'', ''10.0.0.4'', ''10.0.0.5'']"
  using select_targets_bounded [OF demo_engine_parameters, of demo_targets
          "\<lparr>explore_draw = 0.5, count_draw = 0, sample_draws = (\<lambda>i. 0)\<rparr>"]
  by (auto simp: demo_targets_def)

section \<open>Persistence layer\<close>

lemma register_clone_success_iff:
  "fst (register_clone h cid pid tip now) \<longleftrightarrow>
     stored_generation h cid = None \<and> connection h \<noteq> None"
  by (cases pid; cases "connection h")
     (auto simp: register_clone_def get_clone_generation_def stored_generation_def Let_def
           split: option.splits sum.splits)

lemma register_clone_stored:
  assumes "connection h = Some db" "clones db cid = None"
  shows "stored_generation (snd (register_clone h cid pid tip now)) cid =
           Some ((case pid of
                    None \<Rightarrow> 0
                  | Some p \<Rightarrow>
                      if p = [] then 0
                      else (case clones db p of None \<Rightarrow> 0 | Some prow \<Rightarrow> generation prow)) + 1)"
  using assms
  by (cases pid)
     (auto simp: register_clone_def get_clone_generation_def stored_generation_def Let_def
           split: option.splits)

lemma register_clone_keeps_others:
  assumes "p \<noteq> cid"
  shows "stored_generation (snd (register_clone h cid pid tip now)) p = stored_generation h p"
  using assms
  by (cases pid)
     (auto simp: register_clone_def get_clone_generation_def stored_generation_def Let_def
           split: option.splits sum.splits)

lemma parent_registered_eq:
  "parent_registered =
     \<lparr>db_path = '':memory:'',
      connection = Some
        \<lparr>clones = [''PARENT-001'' \<mapsto>
             \<lparr>cr_parent_id = None, cr_target_ip = None, generation = 1,
              created_at = ''2024-01-01T00:00:00'', last_contact = ''2024-01-01T00:00:00'',
              status = ''active'', quantum_signature = None\<rparr>],
         target_evaluations = [], learning_rows = []\<rparr>\<rparr>"
  by (simp add: parent_registered_def register_clone_def memory_handler_def empty_database_def)

lemma clone_registered_eq:
  "clone_registered =
     \<lparr>db_path = '':memory:'',
      connection = Some
        \<lparr>clones = [''CLONE-001'' \<mapsto>
             \<lparr>cr_parent_id = None, cr_target_ip = None, generation = 1,
              created_at = ''2024-01-01T00:00:00'', last_contact = ''2024-01-01T00:00:00'',
              status = ''active'', quantum_signature = None\<rparr>],
         target_evaluations = [], learning_rows = []\<rparr>\<rparr>"
  by (simp add: clone_registered_def register_clone_def memory_handler_def empty_database_def)

text \<open>
  C1, as amended. \<^verbatim>\<open>register_clone\<close> succeeds exactly on a connected store that has no row
  for the clone id. A clone then registered with no parent id (absent, or the empty
  string, which the code takes for absent) is stored with generation 1; one registered
  with a non-empty parent id whose row is stored with generation \<open>g\<close> is stored with
  generation \<open>g + 1\<close>, and the parent's row keeps \<open>g\<close>.
\<close>

theorem register_clone_generation:
  "(fst (register_clone h cid pid tip now) \<longleftrightarrow>
      connection h \<noteq> None \<and> stored_generation h cid = None) \<and>
   (fst (register_clone h cid pid tip now) \<and> \<not> py_truthy pid \<longrightarrow>
      stored_generation (snd (register_clone h cid pid tip now)) cid = Some 1) \<and>
   (\<forall>p g. fst (register_clone h cid pid tip now) \<and> pid = Some p \<and> p \<noteq> [] \<and>
           stored_generation h p = Some g \<longrightarrow>
      stored_generation (snd (register_clone h cid pid tip now)) cid = Some (g + 1) \<and>
      stored_generation (snd (register_clone h cid pid tip now)) p = Some g)"
proof (intro conjI allI impI)
  show "fst (register_clone h cid pid tip now) \<longleftrightarrow>
      connection h \<noteq> None \<and> stored_generation h cid = None"
    using register_clone_success_iff by blast
next
  assume a: "fst (register_clone h cid pid tip now) \<and> \<not> py_truthy pid"
  then obtain db where db: "connection h = Some db" "clones db cid = None"
    by (auto simp: register_clone_success_iff stored_generation_def)
  show "stored_generation (snd (register_clone h cid pid tip now)) cid = Some 1"
    using a register_clone_stored [OF db, of pid tip now] by (cases pid) auto
next
  fix p g
  assume a: "fst (register_clone h cid pid tip now) \<and> pid = Some p \<and> p \<noteq> [] \<and>
           stored_generation h p = Some g"
  then obtain db where db: "connection h = Some db" "clones db cid = None"
    by (auto simp: register_clone_success_iff stored_generation_def)
  from a db obtain prow where prow: "clones db p = Some prow" "generation prow = g"
    by (auto simp: stored_generation_def)
  show "stored_generation (snd (register_clone h cid pid tip now)) cid = Some (g + 1)"
    using a prow register_clone_stored [OF db, of pid tip now] by simp
  have "p \<noteq> cid" using db prow by auto
  then show "stored_generation (snd (register_clone h cid pid tip now)) p = Some g"
    using a by (simp add: register_clone_keeps_others)
qed

theorem register_clone_generation_witness:
  "fst (register_clone memory_handler ''PARENT-001'' None None ''2024-01-01T00:00:00'') \<and>
   stored_generation parent_registered ''PARENT-001'' = Some 1 \<and>
   fst (register_clone parent_registered ''CHILD-001'' (Some ''PARENT-001'') None
          ''2024-01-01T00:00:01'') \<and>
   stored_generation
     (snd (register_clone parent_registered ''CHILD-001'' (Some ''PARENT-001'') None
             ''2024-01-01T00:00:01'')) ''CHILD-001'' = Some 2"
proof -
  note first = register_clone_generation
    [of memory_handler "''PARENT-001''" None None "''2024-01-01T00:00:00''"]
  note second = register_clone_generation
    [of parent_registered "''CHILD-001''" "Some ''PARENT-001''" None "''2024-01-01T00:00:01''"]
  have c: "connection memory_handler \<noteq> None"
      "stored_generation memory_handler ''PARENT-001'' = None"
    by (simp_all add: memory_handler_def stored_generation_def empty_database_def)
  have r1: "fst (register_clone memory_handler ''PARENT-001'' None None ''2024-01-01T00:00:00'')"
    using first c by blast
  have g1: "stored_generation parent_registered ''PARENT-001'' = Some 1"
    using first r1 by (simp add: parent_registered_def)
  have c2: "connection parent_registered \<noteq> None"
      "stored_generation parent_registered ''CHILD-001'' = None"
    by (simp_all add: parent_registered_eq stored_generation_def)
  have r2: "fst (register_clone parent_registered ''CHILD-001'' (Some ''PARENT-001'') None
                   ''2024-01-01T00:00:01'')"
    using second c2 by blast
  have g2: "stored_generation
              (snd (register_clone parent_registered ''CHILD-001'' (Some ''PARENT-001'') None
                      ''2024-01-01T00:00:01'')) ''CHILD-001'' = Some 2"
    using second r2 g1 by simp
  show ?thesis using r1 g1 r2 g2 by simp
qed

text \<open>
  The claim as first stated fails for the empty parent id: a row stored under the empty
  clone id has generation 1, and a clone registered with that parent id is stored with
  generation 1 as well, not 2.
\<close>

theorem register_clone_empty_parent_counterexample:
  "stored_generation empty_id_registered '''' = Some 1 \<and>
   fst (register_clone empty_id_registered ''CHILD-001'' (Some '''') None
          ''2024-01-01T00:00:01'') \<and>
   stored_generation
     (snd (register_clone empty_id_registered ''CHILD-001'' (Some '''') None
             ''2024-01-01T00:00:01'')) ''CHILD-001'' = Some 1 \<and>
   stored_generation
     (snd (register_clone empty_id_registered ''CHILD-001'' (Some '''') None
             ''2024-01-01T00:00:01'')) ''CHILD-001'' \<noteq> Some (1 + 1)"
  by (simp add: empty_id_registered_def register_clone_def memory_handler_def
        empty_database_def stored_generation_def get_clone_generation_def)

section \<open>Replication-state manager\<close>

lemma test_key_replicator_entangled:
  "entanglement_pairs test_key_replicator ''CLONE-001'' =
     Some \<lparr>parent = ''PARENT-001'', key = ''test-key'', established_at = None\<rparr>"
  by (simp add: test_key_replicator_def capture_quantum_state_def QuantumReplicator_init_def
        Let_def)

lemma test_key_replicator_state:
  "quantum_state test_key_replicator ''CLONE-001'' =
     Some \<lparr>coherence = 0.99, entanglement_strength = 0.95, superposition_active = True,
           measurement_timestamp = ''2024-01-01T00:00:02''\<rparr>"
  by (simp add: test_key_replicator_def capture_quantum_state_def QuantumReplicator_init_def
        Let_def)

text \<open>
  C4. For a clone id that is in the entanglement map and has a row in the connected store,
  \<^verbatim>\<open>terminate_clone\<close> reports success, the id is afterwards in neither the entanglement
  map nor the quantum-state map, and the stored status is \<^verbatim>\<open>terminated\<close>.
\<close>

theorem terminate_clone_entangled:
  assumes "entanglement_pairs rep cid = Some pair"
      and "connection h = Some db"
      and "clones db cid = Some row"
  shows "fst (terminate_clone rep h cid now) \<and>
         entanglement_pairs (fst (snd (terminate_clone rep h cid now))) cid = None \<and>
         quantum_state (fst (snd (terminate_clone rep h cid now))) cid = None \<and>
         stored_status (snd (snd (terminate_clone rep h cid now))) cid = Some ''terminated''"
  using assms
  by (simp add: terminate_clone_def db_terminate_clone_def update_clone_status_def
        stored_status_def Let_def)

theorem terminate_clone_entangled_witness:
  "entanglement_pairs test_key_replicator ''CLONE-001'' \<noteq> None \<and>
   quantum_state test_key_replicator ''CLONE-001'' \<noteq> None \<and>
   stored_status clone_registered ''CLONE-001'' = Some ''active'' \<and>
   fst (terminate_clone test_key_replicator clone_registered ''CLONE-001''
          ''2024-01-01T00:00:03'') \<and>
   entanglement_pairs
     (fst (snd (terminate_clone test_key_replicator clone_registered ''CLONE-001''
                  ''2024-01-01T00:00:03''))) ''CLONE-001'' = None \<and>
   quantum_state
     (fst (snd (terminate_clone test_key_replicator clone_registered ''CLONE-001''
                  ''2024-01-01T00:00:03''))) ''CLONE-001'' = None \<and>
   stored_status
     (snd (snd (terminate_clone test_key_replicator clone_registered ''CLONE-001''
                  ''2024-01-01T00:00:03''))) ''CLONE-001'' = Some ''terminated''"
proof -
  have c: "connection clone_registered = Some
        \<lparr>clones = [''CLONE-001'' \<mapsto>
             \<lparr>cr_parent_id = None, cr_target_ip = None, generation = 1,
              created_at = ''2024-01-01T00:00:00'', last_contact = ''2024-01-01T00:00:00'',
              status = ''active'', quantum_signature = None\<rparr>],
         target_evaluations = [], learning_rows = []\<rparr>"
    by (simp add: clone_registered_eq)
  have s: "stored_status clone_registered ''CLONE-001'' = Some ''active''"
    by (simp add: clone_registered_eq stored_status_def)
  show ?thesis
    using terminate_clone_entangled
            [OF test_key_replicator_entangled c, of _ "''2024-01-01T00:00:03''"]
          test_key_replicator_entangled test_key_replicator_state s
    by simp
qed

text \<open>
  C5, as amended. For a clone id that is not in the entanglement map,
  \<^verbatim>\<open>check_clone_status\<close> reports unhealthy with the reason \<^verbatim>\<open>No entanglement found\<close>
  (capital N); for a clone id in the entanglement map it reports healthy, with the id, the
  time of the check and, when a quantum state was captured, its coherence.
\<close>

theorem check_clone_status_rule:
  "(entanglement_pairs rep cid = None \<longrightarrow>
      \<not> healthy (check_clone_status rep cid now) \<and>
      reason (check_clone_status rep cid now) = Some ''No entanglement found'') \<and>
   (entanglement_pairs rep cid \<noteq> None \<longrightarrow>
      healthy (check_clone_status rep cid now) \<and>
      reason (check_clone_status rep cid now) = None \<and>
      cs_clone_id (check_clone_status rep cid now) = Some cid \<and>
      cs_last_contact (check_clone_status rep cid now) = Some now \<and>
      (\<forall>st. quantum_state rep cid = Some st \<longrightarrow>
         quantum_coherence (check_clone_status rep cid now) = Some (coherence st)))"
  by (auto simp: check_clone_status_def split: option.splits)

theorem check_clone_status_rule_witness:
  "\<not> healthy (check_clone_status QuantumReplicator_init ''CLONE-001'' ''2024-01-01T00:00:03'') \<and>
   reason (check_clone_status QuantumReplicator_init ''CLONE-001'' ''2024-01-01T00:00:03'')
     = Some ''No entanglement found'' \<and>
   healthy (check_clone_status test_key_replicator ''CLONE-001'' ''2024-01-01T00:00:03'') \<and>
   quantum_coherence
     (check_clone_status test_key_replicator ''CLONE-001'' ''2024-01-01T00:00:03'') = Some 0.99"
proof -
  have n: "entanglement_pairs QuantumReplicator_init ''CLONE-001'' = None"
    by (simp add: QuantumReplicator_init_def)
  show ?thesis
    using check_clone_status_rule
            [of QuantumReplicator_init "''CLONE-001''" "''2024-01-01T00:00:03''"]
          check_clone_status_rule
            [of test_key_replicator "''CLONE-001''" "''2024-01-01T00:00:03''"]
          n test_key_replicator_entangled test_key_replicator_state
    by simp
qed

text \<open>
  The reason the claim first quotes, \<^verbatim>\<open>no entanglement found\<close> in lower case, is not the
  string the check returns.
\<close>

theorem check_clone_status_reason_counterexample:
  "entanglement_pairs QuantumReplicator_init ''CLONE-001'' = None \<and>
   reason (check_clone_status QuantumReplicator_init ''CLONE-001'' ''2024-01-01T00:00:03'')
     \<noteq> Some ''no entanglement found''"
  by (simp add: check_clone_status_def QuantumReplicator_init_def)

text \<open>
  C10. For a clone id that is not in the entanglement map, \<^verbatim>\<open>repair_clone\<close> reports
  success and leaves the entanglement map as it was, while the quantum-state map gets a
  fresh entry for the id; a later \<^verbatim>\<open>check_clone_status\<close> of the id still reports unhealthy
  for want of an entanglement.
\<close>

theorem repair_clone_not_entangled:
  assumes "entanglement_pairs rep cid = None"
  shows "fst (repair_clone H rep cid rand_hex now) \<and>
         entanglement_pairs (snd (repair_clone H rep cid rand_hex now)) = entanglement_pairs rep \<and>
         quantum_state (snd (repair_clone H rep cid rand_hex now)) =
           (quantum_state rep)(cid \<mapsto>
              \<lparr>coherence = 0.99, entanglement_strength = 0.95, superposition_active = True,
               measurement_timestamp = now\<rparr>) \<and>
         \<not> healthy (check_clone_status (snd (repair_clone H rep cid rand_hex now)) cid later) \<and>
         reason (check_clone_status (snd (repair_clone H rep cid rand_hex now)) cid later) =
           Some ''No entanglement found''"
  using assms
  by (simp add: repair_clone_def capture_quantum_state_def check_clone_status_def Let_def)

theorem repair_clone_not_entangled_witness:
  "entanglement_pairs QuantumReplicator_init ''CLONE-009'' = None \<and>
   fst (repair_clone echo_hashlib QuantumReplicator_init ''CLONE-009'' ''00''
          ''2024-01-01T00:00:04'') \<and>
   entanglement_pairs
     (snd (repair_clone echo_hashlib QuantumReplicator_init ''CLONE-009'' ''00''
             ''2024-01-01T00:00:04'')) ''CLONE-009'' = None \<and>
   quantum_state
     (snd (repair_clone echo_hashlib QuantumReplicator_init ''CLONE-009'' ''00''
             ''2024-01-01T00:00:04'')) ''CLONE-009'' \<noteq> None \<and>
   reason
     (check_clone_status
        (snd (repair_clone echo_hashlib QuantumReplicator_init ''CLONE-009'' ''00''
                ''2024-01-01T00:00:04'')) ''CLONE-009'' ''2024-01-01T00:00:05'') =
     Some ''No entanglement found''"
proof -
  have n: "entanglement_pairs QuantumReplicator_init ''CLONE-009'' = None"
    by (simp add: QuantumReplicator_init_def)
  show ?thesis
    using repair_clone_not_entangled
            [OF n, of echo_hashlib "''00''" "''2024-01-01T00:00:04''" "''2024-01-01T00:00:05''"] n
    by simp
qed

section \<open>Reconnaissance simulator\<close>

lemma mset_shuffle_from:
  "i < length xs \<Longrightarrow> mset (shuffle_from draws i xs) = mset xs"
proof (induction i arbitrary: xs)
  case 0
  show ?case by simp
next
  case (Suc i)
  let ?j = "draws (Suc i) mod (Suc i + 1)"
  have "?j < Suc i + 1" by (rule mod_less_divisor) simp
  then have j: "?j < length xs" using Suc.prems by linarith
  have "mset (xs[Suc i := xs ! ?j, ?j := xs ! Suc i]) = mset xs"
    using j Suc.prems by (rule mset_swap)
  moreover have "i < length (xs[Suc i := xs ! ?j, ?j := xs ! Suc i])"
    using Suc.prems by simp
  ultimately show ?case using Suc.IH [of "xs[Suc i := xs ! ?j, ?j := xs ! Suc i]"]
    by (simp add: Let_def)
qed

lemma set_random_shuffle: "set (random_shuffle draws xs) = set xs"
proof (cases xs)
  case Nil
  then show ?thesis by (simp add: random_shuffle_def)
next
  case (Cons a as)
  then have "mset (random_shuffle draws xs) = mset xs"
    by (simp add: random_shuffle_def mset_shuffle_from)
  then show ?thesis by (rule mset_eq_setD)
qed

lemma scan_hosts_subseq:
  "\<exists>ys. scan_hosts str alive k hs acc = acc @ ys \<and> subseq ys (map str hs)"
proof (induction hs arbitrary: k acc)
  case Nil
  show ?case by simp
next
  case (Cons h hs)
  show ?case
  proof (cases "is_host_alive (alive k)")
    case True
    from Cons.IH [of "Suc k" "acc @ [str h]"] obtain ys where
      ys: "scan_hosts str alive (Suc k) hs (acc @ [str h]) = (acc @ [str h]) @ ys" "subseq ys (map str hs)"
      by blast
    have "scan_hosts str alive k (h # hs) acc = acc @ (str h # ys)"
      using True ys by (simp add: Let_def)
    moreover have "subseq (str h # ys) (map str (h # hs))" using ys by simp
    ultimately show ?thesis by blast
  next
    case False
    from Cons.IH [of "Suc k" acc] obtain ys where
      ys: "scan_hosts str alive (Suc k) hs acc = acc @ ys" "subseq ys (map str hs)"
      by blast
    have "scan_hosts str alive k (h # hs) acc = acc @ ys"
      using False ys by (simp add: Let_def)
    moreover have "subseq ys (map str (h # hs))" using ys by (simp add: list_emb_Cons)
    ultimately show ?thesis by blast
  qed
qed

lemma scan_hosts_tested:
  "subseq (scan_hosts str alive 0 hs []) (map str hs)"
  using scan_hosts_subseq [of str alive 0 hs "[]"] by auto

lemma shuffle_from_fixed:
  "(\<And>i. draws i = i) \<Longrightarrow> shuffle_from draws n xs = xs"
  by (induction n arbitrary: xs) (simp_all add: Let_def)

lemma scan_hosts_first_alive:
  assumes "is_host_alive (alive 0)" "hs \<noteq> []"
  shows "scan_hosts str alive 0 hs [] \<noteq> []"
proof -
  from assms(2) obtain h rest where hs: "hs = h # rest" by (cases hs) auto
  obtain ys where "scan_hosts str alive (Suc 0) rest [str h] = [str h] @ ys"
    using scan_hosts_subseq [of str alive "Suc 0" rest "[str h]"] by blast
  then show ?thesis using assms(1) hs by (simp add: Let_def)
qed

lemma default_hosts_not_empty: "take 50 default_hosts \<noteq> []"
  unfolding default_hosts_def by (simp only: take_upt) simp

text \<open>
  C8, as amended. \<^verbatim>\<open>scan_targets\<close> returns at most 50 addresses. When the range parses,
  each address returned is a host address of the range, and the addresses come in the
  order in which the hosts were tested; when the range does not parse, the list returned
  is empty. The range is the string given when that is not empty; in place of an absent
  or empty range the default \<^verbatim>\<open>192.168.1.0/24\<close> is parsed.
\<close>

theorem scan_targets_bounded:
  "length (scan_targets lib r dr) \<le> 50 \<and>
   (\<forall>hosts. ip_network_hosts lib (range_or_default r) = Inr hosts \<longrightarrow>
      set (scan_targets lib r dr) \<subseteq> host_str lib ` set hosts \<and>
      subseq (scan_targets lib r dr)
        (map (host_str lib) (take 50 (random_shuffle (shuffle_draws dr) hosts)))) \<and>
   (\<forall>e. ip_network_hosts lib (range_or_default r) = Inl e \<longrightarrow> scan_targets lib r dr = []) \<and>
   (\<forall>s. r = Some s \<and> s \<noteq> [] \<longrightarrow> range_or_default r = s) \<and>
   (r = None \<or> r = Some [] \<longrightarrow> range_or_default r = ''192.168.1.0/24'')"
proof (intro conjI allI impI)
  show "length (scan_targets lib r dr) \<le> 50"
  proof (cases "ip_network_hosts lib (range_or_default r)")
    case (Inl e)
    then show ?thesis by (simp add: scan_targets_def)
  next
    case (Inr hosts)
    let ?tested = "take 50 (random_shuffle (shuffle_draws dr) hosts)"
    have "subseq (scan_targets lib r dr) (map (host_str lib) ?tested)"
      using Inr by (simp add: scan_targets_def scan_hosts_tested)
    then have "length (scan_targets lib r dr) \<le> length (map (host_str lib) ?tested)"
      by (rule list_emb_length)
    then show ?thesis by simp
  qed
next
  fix hosts
  assume h: "ip_network_hosts lib (range_or_default r) = Inr hosts"
  let ?tested = "take 50 (random_shuffle (shuffle_draws dr) hosts)"
  show s: "subseq (scan_targets lib r dr) (map (host_str lib) ?tested)"
    using h by (simp add: scan_targets_def scan_hosts_tested)
  have "set (scan_targets lib r dr) \<subseteq> set (map (host_str lib) ?tested)"
    using list_emb_set [OF s] by auto
  also have "\<dots> \<subseteq> host_str lib ` set (random_shuffle (shuffle_draws dr) hosts)"
    using set_take_subset [of 50 "random_shuffle (shuffle_draws dr) hosts"] by auto
  finally show "set (scan_targets lib r dr) \<subseteq> host_str lib ` set hosts"
    by (simp add: set_random_shuffle)
next
  fix e
  assume "ip_network_hosts lib (range_or_default r) = Inl e"
  then show "scan_targets lib r dr = []" by (simp add: scan_targets_def)
next
  fix s
  assume "r = Some s \<and> s \<noteq> []"
  then show "range_or_default r = s" by (simp add: range_or_default_def)
next
  assume "r = None \<or> r = Some []"
  then show "range_or_default r = ''192.168.1.0/24''"
    by (auto simp: range_or_default_def detect_local_network_def)
qed

theorem scan_targets_bounded_witness:
  "ip_network_hosts lib_sample ''192.168.1.0/24'' = Inr default_hosts \<and>
   length (scan_targets lib_sample (Some ''192.168.1.0/24'') all_alive) \<le> 50 \<and>
   set (scan_targets lib_sample (Some ''192.168.1.0/24'') all_alive)
     \<subseteq> host_str lib_sample ` set default_hosts \<and>
   ip_network_hosts lib_sample ''not a network'' = Inl (ValueError ''not a network'') \<and>
   scan_targets lib_sample (Some ''not a network'') all_alive = []"
proof -
  have h1: "ip_network_hosts lib_sample (range_or_default (Some ''192.168.1.0/24'')) = Inr default_hosts"
    and h2: "ip_network_hosts lib_sample (range_or_default (Some ''not a network'')) = Inl (ValueError ''not a network'')"
    by (simp_all add: lib_sample_def range_or_default_def)
  note t1 = scan_targets_bounded [of lib_sample "Some ''192.168.1.0/24''" all_alive]
  note t2 = scan_targets_bounded [of lib_sample "Some ''not a network''" all_alive]
  have a: "length (scan_targets lib_sample (Some ''192.168.1.0/24'') all_alive) \<le> 50"
    using t1 by (rule conjunct1)
  have b: "set (scan_targets lib_sample (Some ''192.168.1.0/24'') all_alive)
     \<subseteq> host_str lib_sample ` set default_hosts"
    using t1 h1 by blast
  have c: "scan_targets lib_sample (Some ''not a network'') all_alive = []"
    using t2 h2 by blast
  have d: "ip_network_hosts lib_sample ''192.168.1.0/24'' = Inr default_hosts"
    and e: "ip_network_hosts lib_sample ''not a network'' = Inl (ValueError ''not a network'')"
    by (simp_all add: lib_sample_def)
  show ?thesis using a b c d e by (intro conjI)
qed

text \<open>
  The claim as first stated fails for the empty string: it does not parse, yet the scan
  then runs over the default network and can return addresses.
\<close>

theorem scan_targets_empty_range_counterexample:
  "ip_network_hosts lib_sample '''' = Inl (ValueError '''') \<and>
   scan_targets lib_sample (Some '''') all_alive \<noteq> []"
proof -
  have a: "is_host_alive (alive_draws all_alive 0)"
    by (simp add: is_host_alive_def all_alive_def)
  have s: "random_shuffle (shuffle_draws all_alive) default_hosts = default_hosts"
    by (simp add: random_shuffle_def all_alive_def shuffle_from_fixed)
  have "scan_targets lib_sample (Some '''') all_alive =
          scan_hosts (host_str lib_sample) (alive_draws all_alive) 0 (take 50 default_hosts) []"
    using s
    by (simp add: scan_targets_def range_or_default_def detect_local_network_def lib_sample_def)
  then have "scan_targets lib_sample (Some '''') all_alive \<noteq> []"
    using scan_hosts_first_alive [of "alive_draws all_alive" "take 50 default_hosts" "host_str lib_sample", OF a default_hosts_not_empty] by simp
  then show ?thesis by (simp add: lib_sample_def)
qed

section \<open>Orchestrator\<close>

lemma topology_hardened:
  "map_topology lib_sample ''192.168.1.10'' hardened_draws =
     Inr \<lparr>subnet = ''192.168.1.0/24'', gateway = ''192.168.1.1'', neighbors = 5,
          network_type = ''flat''\<rparr>"
  by (simp add: map_topology_def lib_sample_def hardened_draws_def random_choice_def)

lemma gather_hardened:
  "gather_intelligence lib_sample sm ''192.168.1.10'' hardened_draws ''2024-01-01T00:00:10'' =
     Inr (hardened_target,
          sm\<lparr>discovered_targets := (discovered_targets sm)(''192.168.1.10'' \<mapsto> hardened_target)\<rparr>)"
  by (simp add: gather_intelligence_def topology_hardened hardened_target_def Let_def)

lemma demo_oz_connected:
  "connection (oz_db_handler demo_oz) \<noteq> None"
  by (simp add: demo_oz_def initialize_def connect_def OuroborosZero_init_def
        DatabaseHandler_init_def register_clone_def empty_database_def
        initialize_engine_def AIDecisionEngine_init_def Let_def)

lemma oz_evaluate_target_keeps:
  "active_connections (snd (oz_evaluate_target lib oz target_ip env)) = active_connections oz \<and>
   clone_registry (snd (oz_evaluate_target lib oz target_ip env)) = clone_registry oz \<and>
   oz_quantum_replicator (snd (oz_evaluate_target lib oz target_ip env)) = oz_quantum_replicator oz \<and>
   stored_clones (oz_db_handler (snd (oz_evaluate_target lib oz target_ip env))) =
     stored_clones (oz_db_handler oz)"
  by (auto simp: oz_evaluate_target_def store_target_evaluation_def stored_clones_def Let_def
           split: sum.splits prod.splits option.splits)

lemma evaluate_hardened:
  "fst (oz_evaluate_target lib_sample demo_oz ''192.168.1.10'' hardened_env) =
     Inr (fst (evaluate_target (oz_ai_engine demo_oz) hardened_target ''2024-01-01T00:00:10''))"
proof -
  obtain db where db: "connection (oz_db_handler demo_oz) = Some db"
    using demo_oz_connected by blast
  show ?thesis
    by (simp add: oz_evaluate_target_def hardened_env_def gather_hardened
          store_target_evaluation_def db Let_def split: prod.splits)
qed

text \<open>
  C6. When the evaluation of the target succeeds and its overall risk score (the score of
  the evaluation record) is greater than 0.7, \<^verbatim>\<open>replicate_to_target\<close> reports failure, and
  the connection registry, the clone registry, the replicator's maps and the stored table
  of clones are as before the call.
\<close>

theorem replicate_to_target_high_risk:
  assumes "fst (oz_evaluate_target lib oz target_ip env) = Inr ev"
      and "0.7 < risk_score ev"
  shows "\<not> fst (replicate_to_target lib H oz target_ip env) \<and>
         active_connections (snd (replicate_to_target lib H oz target_ip env)) =
           active_connections oz \<and>
         clone_registry (snd (replicate_to_target lib H oz target_ip env)) = clone_registry oz \<and>
         oz_quantum_replicator (snd (replicate_to_target lib H oz target_ip env)) =
           oz_quantum_replicator oz \<and>
         stored_clones (oz_db_handler (snd (replicate_to_target lib H oz target_ip env))) =
           stored_clones (oz_db_handler oz)"
proof -
  obtain oz1 where e: "oz_evaluate_target lib oz target_ip env = (Inr ev, oz1)"
    using assms(1) by (cases "oz_evaluate_target lib oz target_ip env") simp
  have r: "replicate_to_target lib H oz target_ip env = (False, oz1)"
    using e assms(2) by (simp add: replicate_to_target_def)
  have "oz1 = snd (oz_evaluate_target lib oz target_ip env)" using e by simp
  then show ?thesis using r oz_evaluate_target_keeps [of lib oz target_ip env] by simp
qed

theorem replicate_to_target_high_risk_witness:
  "risk_score (fst (evaluate_target (oz_ai_engine demo_oz) hardened_target
                      ''2024-01-01T00:00:10'')) = 0.843 \<and>
   \<not> fst (replicate_to_target lib_sample echo_hashlib demo_oz ''192.168.1.10'' hardened_env) \<and>
   active_connections
     (snd (replicate_to_target lib_sample echo_hashlib demo_oz ''192.168.1.10'' hardened_env))
     = active_connections demo_oz \<and>
   clone_registry
     (snd (replicate_to_target lib_sample echo_hashlib demo_oz ''192.168.1.10'' hardened_env))
     = clone_registry demo_oz \<and>
   stored_clones (oz_db_handler
     (snd (replicate_to_target lib_sample echo_hashlib demo_oz ''192.168.1.10'' hardened_env)))
     = stored_clones (oz_db_handler demo_oz)"
proof -
  have r: "0.7 < risk_score (fst (evaluate_target (oz_ai_engine demo_oz) hardened_target
                      ''2024-01-01T00:00:10''))"
    by (simp add: hardened_risk_score)
  show ?thesis
    using replicate_to_target_high_risk [OF evaluate_hardened r, of echo_hashlib]
    by (simp add: hardened_risk_score)
qed

text \<open>
  For contrast: with a risk score of at most 0.7 and an activated simulator the call goes
  on, registers a connection and a clone, and reports success.
\<close>

lemma oz_evaluate_target_connected:
  assumes "oz_evaluate_target lib oz target_ip env = (Inr ev, oz1)"
  shows "connection (oz_db_handler oz1) \<noteq> None \<and>
         evasion_techniques (oz_stealth_module oz1) = evasion_techniques (oz_stealth_module oz) \<and>
         oz_clone_id oz1 = oz_clone_id oz \<and> active_connections oz1 = active_connections oz"
  using assms
  by (auto simp: oz_evaluate_target_def store_target_evaluation_def gather_intelligence_def Let_def
           split: sum.splits prod.splits option.splits)

lemma replicate_connected:
  assumes "connection h \<noteq> None"
  shows "\<exists>info rep'. replicate H rep h files rnd clk target_ip conn parent_id = Inr (info, rep') \<and>
           ci_clone_id info = generate_quantum_id H target_ip parent_id (clk 0) \<and>
           entanglement_pairs rep' (ci_clone_id info) \<noteq> None"
  using assms
  by (auto simp: replicate_def create_replication_package_def generate_clone_config_def
        calculate_generation_def get_clone_generation_def verify_replication_def
        capture_quantum_state_def Let_def split: option.splits)

lemma replicate_to_target_proceeds:
  assumes "fst (oz_evaluate_target lib oz target_ip env) = Inr ev"
      and "\<not> 0.7 < risk_score ev"
      and "evasion_techniques (oz_stealth_module oz) \<noteq> []"
  shows "fst (replicate_to_target lib H oz target_ip env) \<and>
         active_connections (snd (replicate_to_target lib H oz target_ip env)) target_ip \<noteq> None \<and>
         clone_registry (snd (replicate_to_target lib H oz target_ip env))
           (generate_quantum_id H target_ip (oz_clone_id oz) (clock env 3)) \<noteq> None"
proof -
  obtain oz1 where e: "oz_evaluate_target lib oz target_ip env = (Inr ev, oz1)"
    using assms(1) by (cases "oz_evaluate_target lib oz target_ip env") simp
  note k = oz_evaluate_target_connected [OF e]
  let ?conn = "\<lparr>conn_target_ip = target_ip, conn_established_at = clock env 2,
                technique = random_choice (technique_draw env) (evasion_techniques (oz_stealth_module oz1)),
                encrypted = True, protocol = ''custom'', conn_status = ''active''\<rparr>"
  have c: "establish_connection (oz_stealth_module oz1) target_ip (technique_draw env) (clock env 2)
             = Inr ?conn"
    using k assms(3) by (simp add: establish_connection_def)
  obtain info rep' where
    r: "replicate H (oz_quantum_replicator oz1) (oz_db_handler oz1) (source_files env)
          (urandom_hex env) (\<lambda>k. clock env (k + 3)) target_ip ?conn (oz_clone_id oz1)
        = Inr (info, rep')"
    and i: "ci_clone_id info = generate_quantum_id H target_ip (oz_clone_id oz1) (clock env 3)"
    using replicate_connected [of "oz_db_handler oz1" H "oz_quantum_replicator oz1" "source_files env"
        "urandom_hex env" "\<lambda>k. clock env (k + 3)" target_ip ?conn "oz_clone_id oz1"] k
    by auto
  show ?thesis
    using e assms(2) c r i k
    by (simp add: replicate_to_target_def Let_def)
qed

end
